theory Spec2Isabelle
  imports Main "HOL-Library.Sublist" "HOL-Library.List_Lexorder"
begin

section \<open>Text\<close>

text \<open>
  A Python \<open>str\<close> is a sequence of Unicode code points; it is modelled as a list of
  code point numbers. \<open>str\<close> embeds an ASCII literal; code points beyond ASCII are
  written as hexadecimal numerals.
\<close>

type_synonym unicode = "nat list"

definition str :: "string \<Rightarrow> unicode" where
  "str s = map of_char s"

subsection \<open>\<open>str.replace\<close>\<close>

text \<open>
  \<open>s.replace(old, new)\<close> with a non-empty \<open>old\<close>: scan from the left; at the first
  position where \<open>old\<close> starts, emit \<open>new\<close> and resume right after the match;
  elsewhere copy one code point and move on.
\<close>

fun replace_nonempty :: "unicode \<Rightarrow> unicode \<Rightarrow> unicode \<Rightarrow> unicode" where
  "replace_nonempty old new [] = []"
| "replace_nonempty old new (c # cs) =
     (if prefix old (c # cs)
      then new @ replace_nonempty old new (drop (length old - 1) cs)
      else c # replace_nonempty old new cs)"

text \<open>
  With an empty \<open>old\<close>, Python puts \<open>new\<close> before every code point and at the end.
\<close>

definition str_replace :: "unicode \<Rightarrow> unicode \<Rightarrow> unicode \<Rightarrow> unicode" where
  "str_replace s old new =
     (if old = [] then new @ concat (map (\<lambda>c. c # new) s)
      else replace_nonempty old new s)"

section \<open>The substitution table\<close>

text \<open>
  The dictionary \<open>translations\<close> of \<open>translate.py\<close> (the name is an
  Isabelle keyword, hence the suffix), as the list of its items in
  insertion order, which is the order \<open>translations.items()\<close> iterates in. No key is
  written twice in the literal (\<open>translations_dict_keys_distinct\<close> below), so the literal and
  the dictionary hold the same pairs in the same order.
\<close>

definition translations_dict :: "(unicode \<times> unicode) list" where
  "translations_dict =
  [
   ([0x672A, 0x540C, 0x671F], str ''Never synced''),
   ([0x6E96, 0x5099, 0x5B8C, 0x4E86], str ''Ready''),
   ([0x5B9F, 0x884C, 0x4E2D], str ''Running''),
   ([0x5229, 0x7528, 0x53EF, 0x80FD], str ''Available''),
   ([0x30A8, 0x30E9, 0x30FC], str ''Error''),
   ([0x6210, 0x529F], str ''Success''),
   ([0x5931, 0x6557], str ''Failed''),
   ([0x8B66, 0x544A], str ''Warning''),
   ([0x5B8C, 0x4E86], str ''Complete''),
   ([0x8AAD, 0x307F, 0x8FBC, 0x307F, 0x4E2D], str ''Loading''),
   ([0x4ECA, 0x65E5], str ''Today''),
   ([0x6628, 0x65E5], str ''Yesterday''),
   ([0x65E5, 0x524D], str '' days ago''),
   ([0x6642, 0x9593, 0x524D], str '' hours ago''),
   ([0x5206, 0x524D], str '' minutes ago''),
   ([0x9031, 0x9593, 0x524D], str '' weeks ago''),
   ([0x30F6, 0x6708, 0x524D], str '' months ago''),
   (str ''1minutes'' @ [0x4EE5, 0x5185], str ''Less than 1 minute ago''),
   ([0x30B3, 0x30F3, 0x30C6, 0x30CA, 0x7BA1, 0x7406], str ''Container Management''),
   ([0x30C0, 0x30A6, 0x30F3, 0x30ED, 0x30FC, 0x30C9, 0x7BA1, 0x7406], str ''Download Manager''),
   ([0x30B2, 0x30FC, 0x30E0, 0x8FFD, 0x52A0], str ''Add Game''),
   ([0x30B2, 0x30FC, 0x30E0, 0x8A73, 0x7D30], str ''Game Details''),
   ([0x8A2D, 0x5B9A], str ''Settings''),
   ([0x30ED, 0x30B0, 0x30A4, 0x30F3], str ''Login''),
   ([0x30ED, 0x30B0, 0x30A2, 0x30A6, 0x30C8], str ''Logout''),
   ([0x540C, 0x671F], str ''Sync''),
   ([0x8A8D, 0x8A3C], str ''Auth''),
   ([0x4FDD, 0x5B58], str ''Save''),
   ([0x524A, 0x9664], str ''Delete''),
   ([0x30AD, 0x30E3, 0x30F3, 0x30BB, 0x30EB], str ''Cancel''),
   ([0x9589, 0x3058, 0x308B], str ''Close''),
   ([0x78BA, 0x8A8D], str ''Confirm''),
   ([0x623B, 0x308B], str ''Back''),
   ([0x8FFD, 0x52A0], str ''Add''),
   ([0x7DE8, 0x96C6], str ''Edit''),
   ([0x66F4, 0x65B0], str ''Update''),
   ([0x518D, 0x8A66, 0x884C], str ''Retry''),
   ([0x691C, 0x7D22], str ''Search''),
   ([0x304A, 0x6C17, 0x306B, 0x5165, 0x308A], str ''Favorites''),
   ([0x6700, 0x8FD1, 0x30D7, 0x30EC, 0x30A4, 0x3057, 0x305F, 0x30B2, 0x30FC, 0x30E0], str ''Recently Played''),
   ([0x30A4, 0x30F3, 0x30DD, 0x30FC, 0x30C8, 0x3057, 0x305F, 0x30B2, 0x30FC, 0x30E0], str ''Imported Games''),
   ([0x30A4, 0x30F3, 0x30DD, 0x30FC, 0x30C8], str ''Import''),
   ([0x30A4, 0x30F3, 0x30B9, 0x30C8, 0x30FC, 0x30EB], str ''Install''),
   ([0x30A2, 0x30F3, 0x30A4, 0x30F3, 0x30B9, 0x30C8, 0x30FC, 0x30EB], str ''Uninstall''),
   ([0x8D77, 0x52D5], str ''Launch''),
   ([0x632F, 0x52D5], str ''Vibration''),
   ([0x6709, 0x52B9], str ''Enabled''),
   ([0x7121, 0x52B9], str ''Disabled''),
   ([0x5DE6, 0x30B9, 0x30C6, 0x30A3, 0x30C3, 0x30AF], str ''Left Stick''),
   ([0x53F3, 0x30B9, 0x30C6, 0x30A3, 0x30C3, 0x30AF], str ''Right Stick''),
   ([0x30C8, 0x30EA, 0x30AC, 0x30FC], str ''Trigger''),
   ([0x30C6, 0x30B9, 0x30C8], str ''Test''),
   ([0x6700, 0x8FD1, 0x30D7, 0x30EC, 0x30A4, 0x3057, 0x305F], str ''Recently Played''),
   ([0x304A, 0x6C17, 0x306B, 0x5165, 0x308A, 0x306E, 0x30B2, 0x30FC, 0x30E0], str ''Favorite Games''),
   ([0x30A4, 0x30F3, 0x30DD, 0x30FC, 0x30C8, 0x6E08, 0x307F], str ''Imported''),
   ([0x514D, 0x8CAC, 0x4E8B, 0x9805], str ''Disclaimer''),
   ([0x6CE8, 0x610F, 0x4E8B, 0x9805], str ''Notes''),
   ([0x540C, 0x610F, 0x3059, 0x308B], str ''I Agree''),
   ([0x540C, 0x610F, 0x3057, 0x306A, 0x3044], str ''Disagree''),
   ([0x5B8C, 0x4E86, 0x6E08, 0x307F, 0x30AF, 0x30EA, 0x30A2], str ''Clear Completed''),
   ([0x9032, 0x884C, 0x4E2D], str ''In Progress''),
   ([0x30C0, 0x30A6, 0x30F3, 0x30ED, 0x30FC, 0x30C9, 0x5C65, 0x6B74, 0x306A, 0x3057], str ''No download history''),
   ([0x4E00, 0x6642, 0x505C, 0x6B62], str ''Pause''),
   ([0x518D, 0x958B], str ''Resume''),
   ([0x30B3, 0x30F3, 0x30C6, 0x30CA], str ''Container''),
   ([0x30B3, 0x30F3, 0x30C6, 0x30CA, 0x304C, 0x3042, 0x308A, 0x307E, 0x305B, 0x3093], str ''No containers''),
   ([0x65B0, 0x3057, 0x3044, 0x30B3, 0x30F3, 0x30C6, 0x30CA, 0x3092, 0x4F5C, 0x6210], str ''Create New Container''),
   ([0x30B3, 0x30F3, 0x30C6, 0x30CA, 0x540D], str ''Container Name''),
   ([0x30B3, 0x30F3, 0x30C6, 0x30CA, 0x540D, 0x3092, 0x5165, 0x529B, 0x3057, 0x3066, 0x304F, 0x3060, 0x3055, 0x3044], str ''Enter container name''),
   ([0x30B3, 0x30F3, 0x30C6, 0x30CA, 0x3092, 0x524A, 0x9664], str ''Delete Container''),
   ([0x3053, 0x306E, 0x64CD, 0x4F5C, 0x306F, 0x53D6, 0x308A, 0x6D88, 0x305B, 0x307E, 0x305B, 0x3093], str ''This action cannot be undone''),
   ([0x4F5C, 0x6210], str ''Create''),
   ([0x30B5, 0x30A4, 0x30BA], str ''Size''),
   ([0x30B2, 0x30FC, 0x30E0, 0x60C5, 0x5831], str ''Game Info''),
   ([0x30D7, 0x30EC, 0x30A4, 0x6642, 0x9593], str ''Play Time''),
   ([0x6700, 0x7D42, 0x30D7, 0x30EC, 0x30A4, 0x65E5, 0x6642], str ''Last Played''),
   ([0x30BD, 0x30FC, 0x30B9], str ''Source''),
   ([0x30D5, 0x30A1, 0x30A4, 0x30EB, 0x30D1, 0x30B9], str ''File Paths''),
   ([0x5B9F, 0x884C, 0x30D5, 0x30A1, 0x30A4, 0x30EB], str ''Executable''),
   ([0x30A4, 0x30F3, 0x30B9, 0x30C8, 0x30FC, 0x30EB, 0x30D1, 0x30B9], str ''Install Path''),
   (str ''Steam'' @ [0x60C5, 0x5831], str ''Steam Info''),
   ([0x30B2, 0x30FC, 0x30E0, 0x3092, 0x8D77, 0x52D5, 0x4E2D], str ''Launching game''),
   ([0x30B2, 0x30FC, 0x30E0, 0x3092, 0x8D77, 0x52D5, 0x3067, 0x304D, 0x307E, 0x305B, 0x3093], str ''Cannot launch game''),
   ([0x76F4, 0x63A5, 0x8D77, 0x52D5], str ''Direct Launch''),
   (str ''Steam'' @ [0x7D4C, 0x7531, 0x3067, 0x8D77, 0x52D5], str ''Launch via Steam''),
   (str ''Steam'' @ [0x30AF, 0x30E9, 0x30A4, 0x30A2, 0x30F3, 0x30C8, 0x3092, 0x958B, 0x304F], str ''Open Steam Client''),
   ([0x8A2D, 0x5B9A, 0x3092, 0x958B, 0x304F], str ''Open Settings''),
   ([0x672A, 0x30A4, 0x30F3, 0x30B9, 0x30C8, 0x30FC, 0x30EB], str ''Not Installed''),
   ([0x672A, 0x8A2D, 0x5B9A], str ''Not Set''),
   ([0x30B3, 0x30F3, 0x30C8, 0x30ED, 0x30FC, 0x30E9, 0x30FC, 0x8A2D, 0x5B9A], str ''Controller Settings''),
   ([0x30B3, 0x30F3, 0x30C8, 0x30ED, 0x30FC, 0x30E9, 0x30FC, 0x304C, 0x691C, 0x51FA, 0x3055, 0x308C, 0x307E, 0x305B, 0x3093], str ''No controller detected''),
   ([0x30C7, 0x30D5, 0x30A9, 0x30EB, 0x30C8, 0x306B, 0x623B, 0x3059], str ''Reset to default''),
   ([0x30C7, 0x30C3, 0x30C9, 0x30BE, 0x30FC, 0x30F3], str ''Deadzone''),
   ([0x30C6, 0x30B9, 0x30C8, 0x6210, 0x529F], str ''Test Successful''),
   ([0x4E0D, 0x660E, 0x306A, 0x30A8, 0x30E9, 0x30FC], str ''Unknown error''),
   ([0x691C, 0x7D22, 0x30A8, 0x30E9, 0x30FC], str ''Search error''),
   ([0x30B2, 0x30FC, 0x30E0, 0x304C, 0x65E2, 0x306B, 0x5B58, 0x5728, 0x3057, 0x307E, 0x3059], str ''Game already exists''),
   ([0x540C, 0x671F, 0x3092, 0x958B, 0x59CB, 0x3057, 0x3066, 0x3044, 0x307E, 0x3059], str ''Starting sync''),
   ([0x540C, 0x671F, 0x4E2D], str ''Syncing''),
   (str ''API Key'' @ [0x3092, 0x5165, 0x529B, 0x3057, 0x3066, 0x304F, 0x3060, 0x3055, 0x3044], str ''Please enter API Key''),
   ([0x7121, 0x52B9, 0x306A] @ str ''API Key'' @ [0x3067, 0x3059], str ''Invalid API Key''),
   (str ''API Key'' @ [0x3092, 0x4FDD, 0x5B58, 0x3057, 0x307E, 0x3057, 0x305F], str ''API Key saved''),
   (str ''Steam'' @ [0x8A2D, 0x5B9A, 0x3092, 0x30AF, 0x30EA, 0x30A2, 0x3057, 0x307E, 0x3057, 0x305F], str ''Steam Settings cleared''),
   ([0x30AF, 0x30EA, 0x30A2, 0x306B, 0x5931, 0x6557, 0x3057, 0x307E, 0x3057, 0x305F], str ''Clear failed''),
   (str ''Steam Client'' @ [0x304C, 0x30A4, 0x30F3, 0x30B9, 0x30C8, 0x30FC, 0x30EB, 0x3055, 0x308C, 0x3066, 0x3044, 0x307E, 0x305B, 0x3093], str ''Steam Client is not installed''),
   ([0x30A4, 0x30F3, 0x30B9, 0x30C8, 0x30FC, 0x30EB, 0x72B6, 0x614B, 0x306E, 0x78BA, 0x8A8D, 0x306B, 0x5931, 0x6557, 0x3057, 0x307E, 0x3057, 0x305F], str ''Failed to check installation status''),
   ([0x4E88, 0x671F, 0x3057, 0x306A, 0x3044, 0x30A8, 0x30E9, 0x30FC, 0x304C, 0x767A, 0x751F, 0x3057, 0x307E, 0x3057, 0x305F], str ''Unexpected error occurred''),
   (str ''Steam Client'' @ [0x3092, 0x8D77, 0x52D5, 0x3057, 0x307E, 0x3057, 0x305F], str ''Steam Client launched''),
   (str ''Steam Client'' @ [0x304C, 0x30A2, 0x30F3, 0x30A4, 0x30F3, 0x30B9, 0x30C8, 0x30FC, 0x30EB, 0x3055, 0x308C, 0x307E, 0x3057, 0x305F], str ''Steam Client has been uninstalled''),
   ([0x30A2, 0x30F3, 0x30A4, 0x30F3, 0x30B9, 0x30C8, 0x30FC, 0x30EB, 0x306B, 0x5931, 0x6557, 0x3057, 0x307E, 0x3057, 0x305F], str ''Uninstall failed''),
   (str ''Winlator'' @ [0x521D, 0x671F, 0x5316], str ''Winlator initialization''),
   (str ''Winlator'' @ [0x3092, 0x521D, 0x671F, 0x5316, 0x4E2D], str ''Initializing Winlator''),
   ([0x521D, 0x671F, 0x5316, 0x306B, 0x5931, 0x6557, 0x3057, 0x307E, 0x3057, 0x305F], str ''Initialization failed''),
   ([0x521D, 0x671F, 0x5316, 0x4E2D, 0x306B, 0x30A8, 0x30E9, 0x30FC, 0x304C, 0x767A, 0x751F, 0x3057, 0x307E, 0x3057, 0x305F], str ''Error occurred during initialization''),
   ([0x30B3, 0x30F3, 0x30C8, 0x30ED, 0x30FC, 0x30E9, 0x30FC], str ''Controller'')
  ]"

text \<open>
  The inner loop \<open>for jp, en in translations.items(): content = content.replace(jp, en)\<close>,
  over any table.
\<close>

fun apply_rules :: "(unicode \<times> unicode) list \<Rightarrow> unicode \<Rightarrow> unicode" where
  "apply_rules [] content = content"
| "apply_rules ((jp, en) # rest) content = apply_rules rest (str_replace content jp en)"

definition translate :: "unicode \<Rightarrow> unicode" where
  "translate content = apply_rules translations_dict content"

section \<open>Files\<close>

text \<open>
  A \<open>pathlib.Path\<close> is the list of its components; \<open>f.name\<close> is the last one (the
  empty string for the empty path) and \<open>str(f)\<close> joins them with slashes.
\<close>

type_synonym path = "unicode list"

definition name :: "path \<Rightarrow> unicode" where
  "name f = (if f = [] then [] else last f)"

fun path_str :: "path \<Rightarrow> unicode" where
  "path_str [] = str ''.''"
| "path_str [c] = c"
| "path_str (c # d # cs) = c @ str ''/'' @ path_str (d # cs)"

text \<open>The decimal digits of a number, as an f-string prints it.\<close>

fun decimal :: "nat \<Rightarrow> unicode" where
  "decimal n = (if n < 10 then [48 + n] else decimal (n div 10) @ [48 + n mod 10])"

declare decimal.simps [simp del]

text \<open>
  The script uses of an exception only its text (\<open>{e}\<close> in the diagnostic). An \<open>OSError\<close>
  that \<open>open\<close> raises on a path carries the path as its file name, and its text is
  \<open>[Errno n] message: 'path'\<close> (the path between single quotes, which is its \<open>repr\<close> when it
  holds no quote, backslash or unprintable code point); the text of any other
  exception, such as a \<open>UnicodeDecodeError\<close>, is given as it is.
\<close>

type_synonym exn = unicode

datatype exception = OSError nat unicode | Exception unicode

fun exn_text :: "path \<Rightarrow> exception \<Rightarrow> exn" where
  "exn_text f (OSError errno message) =
     str ''[Errno '' @ decimal errno @ str ''] '' @ message @ str '': '' @ [39] @ path_str f @ [39]"
| "exn_text f (Exception message) = message"

declare exn_text.simps(1) [simp del]

text \<open>
  The file system gives, for every path, what \<open>read_text(encoding="utf-8")\<close> does there
  (it raises, on a missing or unreadable file, a directory, or bytes that are not UTF-8,
  or it returns the decoded text) and what \<open>write_text\<close> does there. \<open>write_text\<close> opens
  the file with mode \<open>w\<close> and then writes: when \<open>open\<close> raises, the file is as it was;
  when \<open>open\<close> succeeds the old content is gone, and when the write then raises, the file
  is left empty or with a part of the new text, which is given by what reading it would
  return afterwards. A write that succeeds leaves the new text.
\<close>

datatype write_error = OpenRaises exception | WriteRaises exception "exception + unicode"

record file_node =
  read_result :: "exception + unicode"
  write_failure :: "write_error option"

type_synonym filesystem = "path \<Rightarrow> file_node"

definition read_text :: "filesystem \<Rightarrow> path \<Rightarrow> exn + unicode" where
  "read_text fsys f =
     (case read_result (fsys f) of
        Inl x \<Rightarrow> Inl (exn_text f x)
      | Inr content \<Rightarrow> Inr content)"

definition write_text :: "filesystem \<Rightarrow> path \<Rightarrow> unicode \<Rightarrow> exn option \<times> filesystem" where
  "write_text fsys f content =
     (case write_failure (fsys f) of
        None \<Rightarrow> (None, fsys(f := (fsys f)\<lparr>read_result := Inr content\<rparr>))
      | Some (OpenRaises x) \<Rightarrow> (Some (exn_text f x), fsys)
      | Some (WriteRaises x left) \<Rightarrow>
          (Some (exn_text f x), fsys(f := (fsys f)\<lparr>read_result := left\<rparr>)))"

section \<open>The program\<close>

text \<open>
  The state of a run: the file system, the list \<open>updated\<close>, the lines printed so far
  (one per call of \<open>print\<close>), and a log of the calls of \<open>read_text\<close> and \<open>write_text\<close>
  in the order they were made. \<open>Write f c\<close> records the call \<open>f.write_text(c)\<close>, which
  opens the file for writing, whether or not it then raises.
\<close>

datatype io_event = Read path | Write path unicode

record state =
  files :: filesystem
  updated :: "unicode list"
  stdout :: "unicode list"
  io_log :: "io_event list"

text \<open>
  \<open>print\<close> can raise too (a \<open>UnicodeEncodeError\<close> when the encoding of standard output
  lacks a code point of the line, a \<open>BrokenPipeError\<close> once the reader has gone): the
  console gives, for the lines printed so far and the line to print, the text of the
  exception that printing it raises, if any.
\<close>

type_synonym console = "unicode list \<Rightarrow> unicode \<Rightarrow> exn option"

definition print_line :: "console \<Rightarrow> unicode \<Rightarrow> state \<Rightarrow> exn option \<times> state" where
  "print_line con line st =
     (case con (stdout st) line of
        Some e \<Rightarrow> (Some e, st)
      | None \<Rightarrow> (None, st\<lparr>stdout := stdout st @ [line]\<rparr>))"

definition error_line :: "path \<Rightarrow> exn \<Rightarrow> unicode" where
  "error_line f e = str ''Error '' @ name f @ str '': '' @ e"

text \<open>
  The body of the \<open>for\<close> loop, with its \<open>try\<close>/\<open>except Exception\<close>: an exception of
  \<open>read_text\<close> or of \<open>write_text\<close> ends the \<open>try\<close> block where it is raised (so after a
  failed write nothing is appended to \<open>updated\<close>) and the handler prints one line. The
  result says whether an exception leaves the body: the handler is not itself inside a
  \<open>try\<close>, so an exception of its \<open>print\<close> does.
\<close>

definition process_file_on :: "console \<Rightarrow> path \<Rightarrow> state \<Rightarrow> exn option \<times> state" where
  "process_file_on con f st =
     (case read_text (files st) f of
        Inl e \<Rightarrow> print_line con (error_line f e) (st\<lparr>io_log := io_log st @ [Read f]\<rparr>)
      | Inr original \<Rightarrow>
          (let content = translate original in
           if content \<noteq> original then
             (case write_text (files st) f content of
                (Some e, fsys) \<Rightarrow>
                  print_line con (error_line f e)
                    (st\<lparr>files := fsys, io_log := io_log st @ [Read f, Write f content]\<rparr>)
              | (None, fsys) \<Rightarrow>
                  (None, st\<lparr>files := fsys, updated := updated st @ [name f],
                            io_log := io_log st @ [Read f, Write f content]\<rparr>))
           else (None, st\<lparr>io_log := io_log st @ [Read f]\<rparr>)))"

text \<open>The \<open>for\<close> loop: an exception that leaves the body ends it.\<close>

fun process_all_on :: "console \<Rightarrow> path list \<Rightarrow> state \<Rightarrow> exn option \<times> state" where
  "process_all_on con [] st = (None, st)"
| "process_all_on con (f # fs) st =
     (case process_file_on con f st of
        (Some e, st') \<Rightarrow> (Some e, st')
      | (None, st') \<Rightarrow> process_all_on con fs st')"

text \<open>The lines of the final report: the count, then one line per entry of \<open>updated\<close>.\<close>

definition report :: "unicode list \<Rightarrow> unicode list" where
  "report upd =
     (str ''Updated '' @ decimal (length upd) @ str '' files'') # map (\<lambda>f. str ''  - '' @ f) upd"

fun print_lines :: "console \<Rightarrow> unicode list \<Rightarrow> state \<Rightarrow> exn option \<times> state" where
  "print_lines con [] st = (None, st)"
| "print_lines con (line # lines) st =
     (case print_line con line st of
        (Some e, st') \<Rightarrow> (Some e, st')
      | (None, st') \<Rightarrow> print_lines con lines st')"

text \<open>
  The whole script, from the paths that the tree walk \<open>base.rglob("*.kt")\<close> yields, in the
  order it yields them, and the exception the walk ends with, if it raises. The \<open>for\<close>
  statement is outside every \<open>try\<close>, so an exception of the walk, like one that leaves
  the loop body or the final \<open>print\<close> calls, ends the script uncaught.
\<close>

record outcome =
  final :: state
  uncaught :: "exn option"

definition initial :: "filesystem \<Rightarrow> state" where
  "initial fsys = \<lparr>files = fsys, updated = [], stdout = [], io_log = []\<rparr>"

definition run_on :: "console \<Rightarrow> path list \<Rightarrow> exn option \<Rightarrow> filesystem \<Rightarrow> outcome" where
  "run_on con yielded raised fsys =
     (case process_all_on con yielded (initial fsys) of
        (Some e, st) \<Rightarrow> \<lparr>final = st, uncaught = Some e\<rparr>
      | (None, st) \<Rightarrow>
          (case raised of
             Some e \<Rightarrow> \<lparr>final = st, uncaught = Some e\<rparr>
           | None \<Rightarrow>
               (case print_lines con (report (updated st)) st of
                  (x, st') \<Rightarrow> \<lparr>final = st', uncaught = x\<rparr>)))"

text \<open>
  The script on a console that prints every line: the loop body, the loop and the run.
\<close>

definition every_line :: console where
  "every_line printed line = None"

definition process_file :: "path \<Rightarrow> state \<Rightarrow> state" where
  "process_file f st = snd (process_file_on every_line f st)"

definition process_all :: "path list \<Rightarrow> state \<Rightarrow> state" where
  "process_all ps st = snd (process_all_on every_line ps st)"

definition run :: "path list \<Rightarrow> exn option \<Rightarrow> filesystem \<Rightarrow> outcome" where
  "run yielded raised fsys = run_on every_line yielded raised fsys"

section \<open>The tree walk\<close>

text \<open>
  \<open>base.rglob("*.kt")\<close> is the standard library's (\<open>pathlib\<close> of Python 3.11). A directory
  is the list of its entries in the order \<open>os.scandir\<close> gives them, and may be one that
  cannot be listed (\<open>scandir\<close> raises \<open>PermissionError\<close>); symbolic links are left out.
\<close>

datatype tree = File | Dir bool "(unicode \<times> tree) list"









text \<open>The tree in which every directory that cannot be listed is an empty one that can.\<close>

fun emptied :: "tree \<Rightarrow> tree" where
  "emptied File = File"
| "emptied (Dir listable entries) =
     (if listable then Dir True (map (\<lambda>entry. (fst entry, emptied (snd entry))) entries)
      else Dir True [])"

section \<open>What a run does, file by file\<close>

text \<open>
  The text of the exception, if any, that processing \<open>f\<close> meets on the file system
  \<open>fsys\<close>: the one of \<open>read_text\<close>, or the one of \<open>write_text\<close> when the text changed.
\<close>

fun write_error_text :: "path \<Rightarrow> write_error \<Rightarrow> exn" where
  "write_error_text f (OpenRaises x) = exn_text f x"
| "write_error_text f (WriteRaises x left) = exn_text f x"

definition failure :: "filesystem \<Rightarrow> path \<Rightarrow> exn option" where
  "failure fsys f =
     (case read_text fsys f of
        Inl e \<Rightarrow> Some e
      | Inr original \<Rightarrow>
          if translate original \<noteq> original
          then map_option (write_error_text f) (write_failure (fsys f)) else None)"

text \<open>\<open>f\<close> is read, its text changes and the new text is written.\<close>

definition rewritten :: "filesystem \<Rightarrow> path \<Rightarrow> bool" where
  "rewritten fsys f =
     (case read_text fsys f of
        Inl e \<Rightarrow> False
      | Inr original \<Rightarrow> translate original \<noteq> original \<and> write_failure (fsys f) = None)"

text \<open>The file a processed path holds afterwards.\<close>

definition processed :: "file_node \<Rightarrow> file_node" where
  "processed node =
     (case read_result node of
        Inl x \<Rightarrow> node
      | Inr original \<Rightarrow>
          if translate original \<noteq> original then
            (case write_failure node of
               None \<Rightarrow> node\<lparr>read_result := Inr (translate original)\<rparr>
             | Some (OpenRaises x) \<Rightarrow> node
             | Some (WriteRaises x left) \<Rightarrow> node\<lparr>read_result := left\<rparr>)
          else node)"

text \<open>The diagnostics of the files that failed, in processing order.\<close>

definition diagnostics :: "filesystem \<Rightarrow> path list \<Rightarrow> unicode list" where
  "diagnostics fsys ps =
     concat (map (\<lambda>f. case failure fsys f of Some e \<Rightarrow> [error_line f e] | None \<Rightarrow> []) ps)"

text \<open>The paths read, in order, and the texts written to one path, in order.\<close>

fun reads :: "io_event list \<Rightarrow> path list" where
  "reads [] = []"
| "reads (Read f # es) = f # reads es"
| "reads (Write f c # es) = reads es"

fun writes_to :: "path \<Rightarrow> io_event list \<Rightarrow> unicode list" where
  "writes_to f [] = []"
| "writes_to f (Read g # es) = writes_to f es"
| "writes_to f (Write g c # es) = (if g = f then c # writes_to f es else writes_to f es)"

text \<open>No pattern of the table occurs in the text.\<close>

definition pattern_free :: "unicode \<Rightarrow> bool" where
  "pattern_free s = (\<forall>(jp, en) \<in> set translations_dict. \<not> sublist jp s)"

section \<open>Example inputs\<close>

text \<open>
  A line of Kotlin holding the pattern of the second rule (\<open>Ready\<close>), and a text that
  holds the pattern of the rule \<open>Initializing Winlator\<close> followed by the three code
  points that end the pattern of the rule before it (\<open>Winlator initialization\<close>).
\<close>

definition ready_text :: unicode where
  "ready_text = str ''s = '' @ [0x6E96, 0x5099, 0x5B8C, 0x4E86]"

definition winlator_text :: unicode where
  "winlator_text =
     str ''Winlator'' @ [0x3092, 0x521D, 0x671F, 0x5316, 0x4E2D, 0x521D, 0x671F, 0x5316]"

definition home_kt :: path where
  "home_kt = [str ''ui'', str ''Home.kt'']"

definition locked_kt :: path where
  "locked_kt = [str ''ui'', str ''Locked.kt'']"

definition plain_kt :: path where
  "plain_kt = [str ''ui'', str ''Plain.kt'']"

definition full_kt :: path where
  "full_kt = [str ''ui'', str ''Full.kt'']"

definition screen_ui :: path where
  "screen_ui = [str ''ui'', str ''Screen.kt'']"

definition screen_home :: path where
  "screen_home = [str ''home'', str ''Screen.kt'']"

definition bad_ui :: path where
  "bad_ui = [str ''ui'', str ''Bad.kt'']"

definition bad_home :: path where
  "bad_home = [str ''home'', str ''Bad.kt'']"

definition settings_kt :: path where
  "settings_kt = [str ''ui'', [0x8A2D, 0x5B9A] @ str ''.kt'']"

definition a_kt :: path where
  "a_kt = [str ''a.kt'']"

definition b_kt :: path where
  "b_kt = [str ''b.kt'']"

definition example_paths :: "path list" where
  "example_paths = [home_kt, locked_kt, plain_kt]"

definition failing_paths :: "path list" where
  "failing_paths = [home_kt, locked_kt, full_kt, plain_kt]"

definition screen_paths :: "path list" where
  "screen_paths = [screen_ui, screen_home, bad_ui, bad_home]"

definition screen_paths_swapped :: "path list" where
  "screen_paths_swapped = [screen_home, screen_ui, bad_home, bad_ui]"

text \<open>
  The text of the \<open>UnicodeDecodeError\<close> of a file that starts with the byte \<open>0xff\<close>, and
  the text of the \<open>OSError\<close> of a write on a full disk, which carries no file name.
\<close>

definition decode_error :: unicode where
  "decode_error = [39] @ str ''utf-8'' @ [39] @ str '' codec can'' @ [39]
     @ str ''t decode byte 0xff in position 0: invalid start byte''"

definition disk_full :: unicode where
  "disk_full = str ''[Errno 28] No space left on device''"

text \<open>
  A tree in which \<open>ui/Locked.kt\<close> cannot be opened, \<open>ui/Plain.kt\<close> holds no pattern,
  a write of \<open>ui/Full.kt\<close> raises after the file is opened and leaves it empty, and
  every other file holds \<open>ready_text\<close>; a tree in which no file decodes as UTF-8; one in
  which no file can be opened; one in which every file holds \<open>ready_text\<close>; and one in
  which the two files named \<open>Bad.kt\<close> do not decode and every other file holds
  \<open>ready_text\<close>.
\<close>

definition example_fs :: filesystem where
  "example_fs f =
     (if f = locked_kt
      then \<lparr>read_result = Inl (OSError 13 (str ''Permission denied'')), write_failure = None\<rparr>
      else if f = plain_kt then \<lparr>read_result = Inr (str ''fun''), write_failure = None\<rparr>
      else if f = full_kt
      then \<lparr>read_result = Inr ready_text,
            write_failure = Some (WriteRaises (Exception disk_full) (Inr []))\<rparr>
      else \<lparr>read_result = Inr ready_text, write_failure = None\<rparr>)"

definition undecodable_fs :: filesystem where
  "undecodable_fs f = \<lparr>read_result = Inl (Exception decode_error), write_failure = None\<rparr>"

definition denied_fs :: filesystem where
  "denied_fs f =
     \<lparr>read_result = Inl (OSError 13 (str ''Permission denied'')), write_failure = None\<rparr>"

definition ready_fs :: filesystem where
  "ready_fs f = \<lparr>read_result = Inr ready_text, write_failure = None\<rparr>"

definition mixed_fs :: filesystem where
  "mixed_fs f =
     (if f = bad_ui \<or> f = bad_home
      then \<lparr>read_result = Inl (Exception decode_error), write_failure = None\<rparr>
      else \<lparr>read_result = Inr ready_text, write_failure = None\<rparr>)"

text \<open>
  A console with the ASCII encoding: \<open>print\<close> raises a \<open>UnicodeEncodeError\<close> on a line that
  holds a code point beyond 127 (the text of the exception is cut to its last part).
\<close>

definition ascii_console :: console where
  "ascii_console printed line =
     (if list_ex (\<lambda>c. 128 \<le> c) line then Some (str ''ordinal not in range(128)'') else None)"

text \<open>
  A tree under \<open>base\<close>: the file \<open>Home.kt\<close>, the directory \<open>secret\<close>, which cannot be
  listed and holds \<open>Hidden.kt\<close>, and after it the directory \<open>ui\<close> with \<open>Plain.kt\<close> and
  \<open>notes.txt\<close>.
\<close>

definition example_tree :: tree where
  "example_tree =
     Dir True
       [(str ''Home.kt'', File),
        (str ''secret'', Dir False [(str ''Hidden.kt'', File)]),
        (str ''ui'', Dir True [(str ''Plain.kt'', File), (str ''notes.txt'', File)])]"

section \<open>Substitution\<close>

lemma replace_nonempty_absent:
  "\<not> sublist old s \<Longrightarrow> replace_nonempty old new s = s"
proof (induction s)
  case Nil
  show ?case by simp
next
  case (Cons c cs)
  from Cons.prems have np: "\<not> prefix old (c # cs)" and ns: "\<not> sublist old cs"
    by (simp_all add: sublist_Cons_right)
  from ns have "replace_nonempty old new cs = cs"
    by (rule Cons.IH)
  then show ?case
    by (simp only: replace_nonempty.simps np if_False)
qed

lemma str_replace_absent: "\<not> sublist old s \<Longrightarrow> str_replace s old new = s"
proof -
  assume a: "\<not> sublist old s"
  then have "old \<noteq> []" by auto
  with a show ?thesis by (simp add: str_replace_def replace_nonempty_absent)
qed

lemma apply_rules_absent:
  "\<forall>(jp, en) \<in> set table. \<not> sublist jp s \<Longrightarrow> apply_rules table s = s"
  by (induction table) (auto simp: str_replace_absent)

lemma str_replace_whole: "old \<noteq> [] \<Longrightarrow> str_replace old old new = new"
  by (cases old) (simp_all add: str_replace_def)

lemma translations_dict_keys_distinct: "distinct (map fst translations_dict)"
  by (simp add: translations_dict_def str_def)

lemma translate_winlator_text:
  "translate winlator_text = str ''Initializing Winlator'' @ [0x521D, 0x671F, 0x5316]"
  by (simp add: winlator_text_def translate_def translations_dict_def str_def str_replace_def)

lemma translate_winlator_text_again:
  "translate (str ''Initializing Winlator'' @ [0x521D, 0x671F, 0x5316]) =
     str ''Initializing Winlator initialization''"
  by (simp add: translate_def translations_dict_def str_def str_replace_def)

lemma translate_ready_text: "translate ready_text = str ''s = Ready''"
  by (simp add: ready_text_def translate_def translations_dict_def str_def str_replace_def)

lemma translate_fun: "translate (str ''fun'') = str ''fun''"
  by (simp add: translate_def translations_dict_def str_def str_replace_def)


text \<open>
  C1. Rules are applied one after the other, in table order, each to the text the
  previous ones left. For non-empty patterns \<open>A\<close> and \<open>B\<close>, where \<open>B\<close> does not occur
  in \<open>A\<close> and \<open>B\<close> differs from \<open>C\<close>: the table \<open>[(A, B), (B, C)]\<close> turns the input
  \<open>A\<close> into \<open>C\<close>, the table \<open>[(B, C), (A, B)]\<close> turns it into \<open>B\<close>, and the two results
  differ.
\<close>

theorem order_sensitivity:
  assumes "A \<noteq> []" and "B \<noteq> []" and "\<not> sublist B A" and "B \<noteq> C"
  shows "apply_rules [(A, B), (B, C)] A = C \<and> apply_rules [(B, C), (A, B)] A = B
    \<and> apply_rules [(A, B), (B, C)] A \<noteq> apply_rules [(B, C), (A, B)] A"
  using assms by (simp add: str_replace_whole str_replace_absent)

text \<open>The instance of the claim: the strings \<open>"A"\<close>, \<open>"B"\<close> and \<open>"C"\<close>.\<close>

theorem order_sensitivity_witness:
  "apply_rules [(str ''A'', str ''B''), (str ''B'', str ''C'')] (str ''A'') = str ''C''
   \<and> apply_rules [(str ''B'', str ''C''), (str ''A'', str ''B'')] (str ''A'') = str ''B''
   \<and> apply_rules [(str ''A'', str ''B''), (str ''B'', str ''C'')] (str ''A'')
       \<noteq> apply_rules [(str ''B'', str ''C''), (str ''A'', str ''B'')] (str ''A'')"
proof -
  have h1: "str ''A'' \<noteq> []" and h2: "str ''B'' \<noteq> []" and h4: "str ''B'' \<noteq> str ''C''"
    by (simp_all add: str_def)
  have h3: "\<not> sublist (str ''B'') (str ''A'')"
    by (simp add: str_def sublist_Cons_right)
  show ?thesis
    using order_sensitivity [OF h1 h2 h3 h4] .
qed

text \<open>
  C4. One rule replaces non-overlapping occurrences from the left and resumes after each
  match: the rule \<open>("aa", r)\<close> turns \<open>"aaa"\<close> into \<open>r\<close> followed by \<open>"a"\<close>, for every
  replacement \<open>r\<close>.
\<close>

theorem non_overlap:
  "str_replace (str ''aaa'') (str ''aa'') r = r @ str ''a''
   \<and> apply_rules [(str ''aa'', r)] (str ''aaa'') = r @ str ''a''"
  by (simp add: str_def str_replace_def)

section \<open>The loop body and the loop\<close>

lemma print_line_every_line:
  "print_line every_line line st = (None, st\<lparr>stdout := stdout st @ [line]\<rparr>)"
  by (simp add: print_line_def every_line_def)

lemma process_file_on_every_line: "process_file_on every_line f st = (None, process_file f st)"
  by (simp add: process_file_def process_file_on_def print_line_every_line Let_def
      split: sum.splits prod.splits option.splits)

lemma process_all_Nil [simp]: "process_all [] st = st"
  by (simp add: process_all_def)

lemma process_all_Cons [simp]: "process_all (f # fs) st = process_all fs (process_file f st)"
  by (simp add: process_all_def process_file_on_every_line)

lemma process_all_on_every_line: "process_all_on every_line ps st = (None, process_all ps st)"
  by (induction ps arbitrary: st) (simp_all add: process_file_on_every_line)

lemma print_lines_every_line:
  "print_lines every_line lines st = (None, st\<lparr>stdout := stdout st @ lines\<rparr>)"
  by (induction lines arbitrary: st) (simp_all add: print_line_every_line)


lemma reads_append: "reads (es @ es') = reads es @ reads es'"
  by (induction es rule: reads.induct) simp_all

lemma writes_to_append: "writes_to f (es @ es') = writes_to f es @ writes_to f es'"
  by (induction f es rule: writes_to.induct) simp_all

lemma files_process_file:
  "files (process_file f st) = (files st)(f := processed (files st f))"
  by (auto simp: process_file_def process_file_on_def print_line_every_line processed_def
      read_text_def write_text_def Let_def
      split: sum.splits option.splits write_error.splits)

lemma updated_process_file:
  "updated (process_file f st) = updated st @ (if rewritten (files st) f then [name f] else [])"
  by (auto simp: process_file_def process_file_on_def print_line_every_line rewritten_def
      read_text_def write_text_def Let_def
      split: sum.splits option.splits write_error.splits)

lemma stdout_process_file:
  "stdout (process_file f st) = stdout st @ diagnostics (files st) [f]"
  by (auto simp: process_file_def process_file_on_def print_line_every_line diagnostics_def
      failure_def read_text_def write_text_def Let_def
      split: sum.splits option.splits write_error.splits)

lemma io_log_process_file:
  "io_log (process_file f st) = io_log st @ Read f #
     (case read_text (files st) f of
        Inl e \<Rightarrow> []
      | Inr original \<Rightarrow>
          if translate original \<noteq> original then [Write f (translate original)] else [])"
  by (auto simp: process_file_def process_file_on_def print_line_every_line
      read_text_def write_text_def Let_def
      split: sum.splits option.splits write_error.splits)

lemma failure_cong: "fsys f = fsys' f \<Longrightarrow> failure fsys f = failure fsys' f"
  by (simp add: failure_def read_text_def split: sum.splits)

lemma rewritten_cong: "fsys f = fsys' f \<Longrightarrow> rewritten fsys f = rewritten fsys' f"
  by (simp add: rewritten_def read_text_def split: sum.splits)

lemma diagnostics_Cons:
  "diagnostics fsys (f # ps) = diagnostics fsys [f] @ diagnostics fsys ps"
  by (simp add: diagnostics_def)

lemma diagnostics_cong:
  "(\<And>f. f \<in> set ps \<Longrightarrow> fsys f = fsys' f) \<Longrightarrow> diagnostics fsys ps = diagnostics fsys' ps"
proof (induction ps)
  case Nil
  show ?case by (simp add: diagnostics_def)
next
  case (Cons g ps)
  have "failure fsys g = failure fsys' g"
    by (rule failure_cong) (simp add: Cons.prems)
  moreover have "diagnostics fsys ps = diagnostics fsys' ps"
    by (rule Cons.IH) (simp add: Cons.prems)
  ultimately show ?case by (simp add: diagnostics_def)
qed

lemma files_process_all:
  "distinct ps \<Longrightarrow>
   files (process_all ps st) g = (if g \<in> set ps then processed (files st g) else files st g)"
proof (induction ps arbitrary: st)
  case Nil
  show ?case by simp
next
  case (Cons f ps)
  then have "distinct ps" and "f \<notin> set ps" by simp_all
  then show ?case
    using Cons.IH [of "process_file f st"] by (auto simp: files_process_file)
qed

lemma updated_process_all:
  "distinct ps \<Longrightarrow>
   updated (process_all ps st) = updated st @ map name (filter (rewritten (files st)) ps)"
proof (induction ps arbitrary: st)
  case Nil
  show ?case by simp
next
  case (Cons f ps)
  then have d: "distinct ps" and nf: "f \<notin> set ps" by simp_all
  have "filter (rewritten (files (process_file f st))) ps = filter (rewritten (files st)) ps"
  proof (rule filter_cong [OF refl])
    fix g assume "g \<in> set ps"
    with nf have "g \<noteq> f" by blast
    then show "rewritten (files (process_file f st)) g = rewritten (files st) g"
      by (intro rewritten_cong) (simp add: files_process_file)
  qed
  then show ?case
    using Cons.IH [OF d, of "process_file f st"] by (simp add: updated_process_file)
qed

lemma stdout_process_all:
  "distinct ps \<Longrightarrow> stdout (process_all ps st) = stdout st @ diagnostics (files st) ps"
proof (induction ps arbitrary: st)
  case Nil
  show ?case by (simp add: diagnostics_def)
next
  case (Cons f ps)
  then have d: "distinct ps" and nf: "f \<notin> set ps" by simp_all
  have "diagnostics (files (process_file f st)) ps = diagnostics (files st) ps"
  proof (rule diagnostics_cong)
    fix g assume "g \<in> set ps"
    with nf have "g \<noteq> f" by blast
    then show "files (process_file f st) g = files st g"
      by (simp add: files_process_file)
  qed
  then show ?case
    using Cons.IH [OF d, of "process_file f st"]
    by (simp add: stdout_process_file diagnostics_Cons [of _ f ps])
qed

lemma reads_process_all: "reads (io_log (process_all ps st)) = reads (io_log st) @ ps"
proof (induction ps arbitrary: st)
  case Nil
  show ?case by simp
next
  case (Cons f ps)
  have "reads (io_log (process_file f st)) = reads (io_log st) @ [f]"
    by (simp add: io_log_process_file reads_append split: sum.splits)
  then show ?case
    using Cons.IH [of "process_file f st"] by simp
qed

lemma writes_to_process_file_other:
  "g \<noteq> f \<Longrightarrow> writes_to g (io_log (process_file f st)) = writes_to g (io_log st)"
  by (simp add: io_log_process_file writes_to_append split: sum.splits)

lemma writes_to_process_file_self:
  "writes_to f (io_log (process_file f st)) = writes_to f (io_log st) @
     (case read_text (files st) f of
        Inl e \<Rightarrow> []
      | Inr original \<Rightarrow> if translate original \<noteq> original then [translate original] else [])"
  by (simp add: io_log_process_file writes_to_append split: sum.splits)

lemma writes_to_process_all_other:
  "g \<notin> set ps \<Longrightarrow> writes_to g (io_log (process_all ps st)) = writes_to g (io_log st)"
  by (induction ps arbitrary: st) (simp_all add: writes_to_process_file_other)

lemma writes_to_process_all:
  "distinct ps \<Longrightarrow> f \<in> set ps \<Longrightarrow>
   writes_to f (io_log (process_all ps st)) = writes_to f (io_log st) @
     (case read_text (files st) f of
        Inl e \<Rightarrow> []
      | Inr original \<Rightarrow> if translate original \<noteq> original then [translate original] else [])"
proof (induction ps arbitrary: st)
  case Nil
  then show ?case by simp
next
  case (Cons g ps)
  show ?case
  proof (cases "g = f")
    case True
    with Cons.prems have "f \<notin> set ps" by simp
    then show ?thesis
      using True by (simp add: writes_to_process_all_other writes_to_process_file_self)
  next
    case False
    with Cons.prems have "distinct ps" and "f \<in> set ps" by simp_all
    then have "writes_to f (io_log (process_all ps (process_file g st))) =
      writes_to f (io_log (process_file g st)) @
        (case read_text (files (process_file g st)) f of
           Inl e \<Rightarrow> []
         | Inr original \<Rightarrow> if translate original \<noteq> original then [translate original] else [])"
      by (rule Cons.IH)
    moreover have "read_text (files (process_file g st)) f = read_text (files st) f"
      using False by (simp add: read_text_def files_process_file)
    ultimately show ?thesis
      using False by (simp add: writes_to_process_file_other)
  qed
qed

section \<open>Runs\<close>

lemma run_every_line:
  "run ps raised fsys =
     (case raised of
        Some e \<Rightarrow> \<lparr>final = process_all ps (initial fsys), uncaught = Some e\<rparr>
      | None \<Rightarrow>
          \<lparr>final = (process_all ps (initial fsys))
             \<lparr>stdout := stdout (process_all ps (initial fsys))
                @ report (updated (process_all ps (initial fsys)))\<rparr>,
           uncaught = None\<rparr>)"
  by (simp add: run_def run_on_def process_all_on_every_line print_lines_every_line
      split: option.splits)

lemma files_run: "files (final (run ps raised fsys)) = files (process_all ps (initial fsys))"
  by (simp add: run_every_line split: option.splits)

lemma updated_run: "updated (final (run ps raised fsys)) = updated (process_all ps (initial fsys))"
  by (simp add: run_every_line split: option.splits)

lemma io_log_run: "io_log (final (run ps raised fsys)) = io_log (process_all ps (initial fsys))"
  by (simp add: run_every_line split: option.splits)

lemma stdout_run_None:
  "stdout (final (run ps None fsys)) =
     stdout (process_all ps (initial fsys)) @ report (updated (process_all ps (initial fsys)))"
  by (simp add: run_every_line)

lemma stdout_run_Some:
  "stdout (final (run ps (Some e) fsys)) = stdout (process_all ps (initial fsys))"
  by (simp add: run_every_line)

lemma uncaught_run: "uncaught (run ps raised fsys) = raised"
  by (simp add: run_every_line split: option.splits)

lemma read_text_Inr: "read_text fsys f = Inr c \<longleftrightarrow> read_result (fsys f) = Inr c"
  by (simp add: read_text_def split: sum.splits)

lemma initial_simps:
  "files (initial fsys) = fsys" "updated (initial fsys) = []"
  "stdout (initial fsys) = []" "io_log (initial fsys) = []"
  by (simp_all add: initial_def)

lemma filter_remove1_irrelevant: "\<not> P f \<Longrightarrow> filter P (remove1 f ps) = filter P ps"
  by (induction ps) auto

lemma diagnostics_remove1:
  "failure fsys f = None \<Longrightarrow> diagnostics fsys (remove1 f ps) = diagnostics fsys ps"
  by (induction ps) (auto simp: diagnostics_def)

lemma diagnostics_member:
  "f \<in> set ps \<Longrightarrow> failure fsys f = Some e \<Longrightarrow> error_line f e \<in> set (diagnostics fsys ps)"
  by (force simp: diagnostics_def)

lemma failure_not_rewritten: "failure fsys f = Some e \<Longrightarrow> \<not> rewritten fsys f"
  by (auto simp: failure_def rewritten_def split: sum.splits if_splits)

lemma processed_unchanged:
  "read_text fsys f = Inr original \<Longrightarrow> translate original = original \<Longrightarrow>
   processed (fsys f) = fsys f"
  by (auto simp: processed_def read_text_def split: sum.splits)

lemma translate_absent: "pattern_free s \<Longrightarrow> translate s = s"
  by (simp add: pattern_free_def translate_def apply_rules_absent)

lemma files_remove1_other:
  assumes "distinct ps" and "g \<noteq> f"
  shows "files (process_all ps st) g = files (process_all (remove1 f ps) st) g"
proof -
  have "distinct (remove1 f ps)" using assms(1) by simp
  then show ?thesis
    using assms by (simp add: files_process_all)
qed

text \<open>
  C2. In a run over distinct paths, a file whose text is read successfully is opened for
  writing exactly when the transformed text differs from the original: the calls of
  \<open>write_text\<close> on it are the one call with the transformed text when it differs, and
  none when it does not. When that write does not raise, the file holds the transformed
  text afterwards (a write that raises is the error path of the loop body); when the text
  is unchanged the file is left as it was. A file that holds no pattern is left as it was,
  is never opened for writing, and the list \<open>updated\<close> and the whole output are those of
  the run without it.
\<close>

theorem persisted_iff_changed:
  assumes "distinct ps" and "f \<in> set ps" and "read_text fsys f = Inr original"
  shows "writes_to f (io_log (final (run ps raised fsys))) =
           (if translate original \<noteq> original then [translate original] else [])
    \<and> (write_failure (fsys f) = None \<longrightarrow>
           read_text (files (final (run ps raised fsys))) f = Inr (translate original))
    \<and> (translate original = original \<longrightarrow> files (final (run ps raised fsys)) f = fsys f)
    \<and> (pattern_free original \<longrightarrow>
           files (final (run ps raised fsys)) f = fsys f
         \<and> writes_to f (io_log (final (run ps raised fsys))) = []
         \<and> updated (final (run ps raised fsys)) = updated (final (run (remove1 f ps) raised fsys))
         \<and> stdout (final (run ps raised fsys)) = stdout (final (run (remove1 f ps) raised fsys)))"
proof -
  have w: "writes_to f (io_log (final (run ps raised fsys))) =
      (if translate original \<noteq> original then [translate original] else [])"
    using assms by (simp add: io_log_run writes_to_process_all initial_simps)
  have fl: "files (final (run ps raised fsys)) f = processed (fsys f)"
    using assms by (simp add: files_run files_process_all initial_simps)
  have p: "write_failure (fsys f) = None \<longrightarrow>
      read_text (files (final (run ps raised fsys))) f = Inr (translate original)"
    using assms(3) by (simp add: read_text_Inr fl processed_def)
  have u: "translate original = original \<longrightarrow> files (final (run ps raised fsys)) f = fsys f"
    using assms(3) unfolding fl by (simp add: processed_unchanged)
  have c: "files (final (run ps raised fsys)) f = fsys f
         \<and> writes_to f (io_log (final (run ps raised fsys))) = []
         \<and> updated (final (run ps raised fsys)) = updated (final (run (remove1 f ps) raised fsys))
         \<and> stdout (final (run ps raised fsys)) = stdout (final (run (remove1 f ps) raised fsys))"
    if clean: "pattern_free original"
  proof -
    have same: "translate original = original"
      using clean by (rule translate_absent)
    have nr: "\<not> rewritten fsys f" and nf: "failure fsys f = None"
      using assms(3) same by (simp_all add: rewritten_def failure_def)
    have d: "distinct (remove1 f ps)" using assms(1) by simp
    have up: "updated (process_all ps (initial fsys)) = updated (process_all (remove1 f ps) (initial fsys))"
      using nr by (simp add: updated_process_all [OF assms(1)] updated_process_all [OF d]
          initial_simps filter_remove1_irrelevant)
    have so: "stdout (process_all ps (initial fsys)) = stdout (process_all (remove1 f ps) (initial fsys))"
      using nf by (simp add: stdout_process_all [OF assms(1)] stdout_process_all [OF d]
          initial_simps diagnostics_remove1)
    have "stdout (final (run ps raised fsys)) = stdout (final (run (remove1 f ps) raised fsys))"
      by (cases raised) (simp_all add: stdout_run_None stdout_run_Some up so)
    then show ?thesis
      using u w same by (simp add: updated_run up)
  qed
  from w p u c show ?thesis by blast
qed

lemma process_file_on_accepted:
  assumes "\<forall>h e. failure (files st) f = Some e \<longrightarrow> con h (error_line f e) = None"
  shows "process_file_on con f st = (None, process_file f st)"
proof (cases "failure (files st) f")
  case None
  then show ?thesis
    by (auto simp: process_file_def process_file_on_def print_line_def failure_def write_text_def
        Let_def split: sum.splits prod.splits option.splits write_error.splits if_splits)
next
  case (Some e)
  with assms have "con (stdout st) (error_line f e) = None" by simp
  with Some show ?thesis
    by (auto simp: process_file_def process_file_on_def print_line_def every_line_def failure_def
        write_text_def Let_def
        split: sum.splits prod.splits option.splits write_error.splits if_splits)
qed

lemma process_all_on_accepted:
  assumes "distinct ps"
    and "\<forall>h. \<forall>g \<in> set ps. \<forall>e. failure (files st) g = Some e \<longrightarrow> con h (error_line g e) = None"
  shows "process_all_on con ps st = (None, process_all ps st)"
  using assms
proof (induction ps arbitrary: st)
  case Nil
  show ?case by simp
next
  case (Cons f ps)
  then have d: "distinct ps" and nf: "f \<notin> set ps" by simp_all
  have here: "process_file_on con f st = (None, process_file f st)"
    by (rule process_file_on_accepted) (simp add: Cons.prems)
  have "\<forall>h. \<forall>g \<in> set ps. \<forall>e. failure (files (process_file f st)) g = Some e
      \<longrightarrow> con h (error_line g e) = None"
  proof (intro ballI allI impI)
    fix h g e
    assume g: "g \<in> set ps" and e: "failure (files (process_file f st)) g = Some e"
    from g nf have "g \<noteq> f" by blast
    then have "failure (files (process_file f st)) g = failure (files st) g"
      by (intro failure_cong) (simp add: files_process_file)
    with e g Cons.prems(2) show "con h (error_line g e) = None" by simp
  qed
  with d have "process_all_on con ps (process_file f st) = (None, process_all ps (process_file f st))"
    by (rule Cons.IH)
  with here show ?case by simp
qed

lemma print_lines_frame:
  "files (snd (print_lines con lines st)) = files st
   \<and> updated (snd (print_lines con lines st)) = updated st
   \<and> io_log (snd (print_lines con lines st)) = io_log st
   \<and> set (stdout st) \<subseteq> set (stdout (snd (print_lines con lines st)))"
proof (induction lines arbitrary: st)
  case Nil
  show ?case by simp
next
  case (Cons line lines)
  show ?case
  proof (cases "con (stdout st) line")
    case None
    then show ?thesis
      using Cons.IH [of "st\<lparr>stdout := stdout st @ [line]\<rparr>"] by (auto simp: print_line_def)
  next
    case (Some e)
    then show ?thesis by (simp add: print_line_def)
  qed
qed

lemma final_run_on:
  assumes "process_all_on con ps (initial fsys) = (None, st)"
  shows "final (run_on con ps raised fsys) =
     (case raised of Some e \<Rightarrow> st | None \<Rightarrow> snd (print_lines con (report (updated st)) st))"
  using assms by (simp add: run_on_def split: option.splits prod.splits)

lemma run_on_accepted:
  assumes "distinct ps"
    and "\<forall>h. \<forall>g \<in> set ps. \<forall>e. failure fsys g = Some e \<longrightarrow> con h (error_line g e) = None"
  shows "files (final (run_on con ps raised fsys)) = files (process_all ps (initial fsys))"
    and "updated (final (run_on con ps raised fsys)) = updated (process_all ps (initial fsys))"
    and "io_log (final (run_on con ps raised fsys)) = io_log (process_all ps (initial fsys))"
    and "set (stdout (process_all ps (initial fsys))) \<subseteq> set (stdout (final (run_on con ps raised fsys)))"
proof -
  have loop: "process_all_on con ps (initial fsys) = (None, process_all ps (initial fsys))"
    using assms by (intro process_all_on_accepted) (simp_all add: initial_simps)
  note fin = final_run_on [OF loop]
  note frame = print_lines_frame
    [of con "report (updated (process_all ps (initial fsys)))" "process_all ps (initial fsys)"]
  show "files (final (run_on con ps raised fsys)) = files (process_all ps (initial fsys))"
    using frame by (cases raised) (simp_all add: fin)
  show "updated (final (run_on con ps raised fsys)) = updated (process_all ps (initial fsys))"
    using frame by (cases raised) (simp_all add: fin)
  show "io_log (final (run_on con ps raised fsys)) = io_log (process_all ps (initial fsys))"
    using frame by (cases raised) (simp_all add: fin)
  show "set (stdout (process_all ps (initial fsys))) \<subseteq> set (stdout (final (run_on con ps raised fsys)))"
    using frame by (cases raised) (simp_all add: fin)
qed

text \<open>
  C5, as amended. In a run over distinct paths, on any console that prints the
  diagnostics of the run, when reading or writing the file \<open>f\<close> raises an exception with
  the text \<open>e\<close>: the line \<open>Error\<close>, the base name of \<open>f\<close>, a colon and \<open>e\<close> is printed, every
  yielded file is still read, and every other file, and the list \<open>updated\<close>, end as in the
  run without \<open>f\<close>. The diagnostic names the file by \<open>f.name\<close>, not by its path. The file
  \<open>f\<close> itself ends as \<open>processed\<close> says: as it was, or, when the write raised after the
  file was opened, with what that write left.
\<close>

theorem failure_isolated:
  assumes "distinct ps" and "f \<in> set ps" and "failure fsys f = Some e"
    and "\<forall>h. \<forall>g \<in> set ps. \<forall>e'. failure fsys g = Some e' \<longrightarrow> con h (error_line g e') = None"
  shows "str ''Error '' @ name f @ str '': '' @ e \<in> set (stdout (final (run_on con ps raised fsys)))
    \<and> reads (io_log (final (run_on con ps raised fsys))) = ps
    \<and> (\<forall>g. g \<noteq> f \<longrightarrow> files (final (run_on con ps raised fsys)) g =
          files (final (run_on con (remove1 f ps) raised fsys)) g)
    \<and> updated (final (run_on con ps raised fsys)) =
        updated (final (run_on con (remove1 f ps) raised fsys))
    \<and> files (final (run_on con ps raised fsys)) f = processed (fsys f)"
proof -
  have d: "distinct (remove1 f ps)" using assms(1) by simp
  have acc: "\<forall>h. \<forall>g \<in> set (remove1 f ps). \<forall>e'. failure fsys g = Some e'
      \<longrightarrow> con h (error_line g e') = None"
    using assms(1,4) by simp
  note whole = run_on_accepted [OF assms(1,4), of raised]
  note rest = run_on_accepted [OF d acc, of raised]
  have "error_line f e \<in> set (diagnostics fsys ps)"
    using assms(2,3) by (rule diagnostics_member)
  then have "error_line f e \<in> set (stdout (process_all ps (initial fsys)))"
    by (simp add: stdout_process_all [OF assms(1)] initial_simps)
  then have l: "str ''Error '' @ name f @ str '': '' @ e \<in> set (stdout (final (run_on con ps raised fsys)))"
    using whole(4) by (auto simp: error_line_def)
  have r: "reads (io_log (final (run_on con ps raised fsys))) = ps"
    by (simp add: whole(3) reads_process_all initial_simps)
  have fl: "\<forall>g. g \<noteq> f \<longrightarrow> files (final (run_on con ps raised fsys)) g =
          files (final (run_on con (remove1 f ps) raised fsys)) g"
    using files_remove1_other [OF assms(1)] by (simp add: whole(1) rest(1))
  have up: "updated (final (run_on con ps raised fsys)) =
        updated (final (run_on con (remove1 f ps) raised fsys))"
    using failure_not_rewritten [OF assms(3)]
    by (simp add: whole(2) rest(2) updated_process_all [OF assms(1)] updated_process_all [OF d]
        initial_simps filter_remove1_irrelevant)
  have own: "files (final (run_on con ps raised fsys)) f = processed (fsys f)"
    using assms(2) by (simp add: whole(1) files_process_all [OF assms(1)] initial_simps)
  from l r fl up own show ?thesis by blast
qed

text \<open>
  Without that proviso the loop can end early: when the console raises on the diagnostic
  of a file, the exception leaves the handler and the files after it are not read.
\<close>

lemma print_failure_ends_loop:
  assumes "failure (files st) f = Some e" and "con (stdout st) (error_line f e) = Some x"
  shows "fst (process_all_on con (f # fs) st) = Some x
    \<and> stdout (snd (process_all_on con (f # fs) st)) = stdout st
    \<and> reads (io_log (snd (process_all_on con (f # fs) st))) = reads (io_log st) @ [f]"
  using assms
  by (auto simp: process_file_on_def print_line_def failure_def write_text_def Let_def reads_append
      split: sum.splits prod.splits option.splits write_error.splits if_splits)

text \<open>
  C6. In a run over distinct paths, \<open>updated\<close> holds the names of exactly the files that
  were read, changed and written, in processing order; a file whose read or write raised
  is none of them. The output is the diagnostics, then the line with the count of these
  files, then one line per file.
\<close>

theorem report_exact:
  assumes "distinct ps"
  shows "updated (final (run ps None fsys)) = map name (filter (rewritten fsys) ps)
    \<and> stdout (final (run ps None fsys)) =
        diagnostics fsys ps
        @ (str ''Updated '' @ decimal (length (filter (rewritten fsys) ps)) @ str '' files'')
        # map (\<lambda>f. str ''  - '' @ name f) (filter (rewritten fsys) ps)
    \<and> (\<forall>f e. failure fsys f = Some e \<longrightarrow> \<not> rewritten fsys f)"
  using assms
  by (simp add: updated_run stdout_run_None updated_process_all stdout_process_all initial_simps
      report_def failure_not_rewritten comp_def)

text \<open>
  C7. The transformed text of a file depends on its original text alone: for two runs
  over distinct paths, on any two file systems, and a file in each with the same original
  text, the texts handed to \<open>write_text\<close> are the same, and when neither write raises the
  two files hold the same text afterwards.
\<close>

theorem transformed_content_pure:
  assumes "distinct ps" and "f \<in> set ps" and "read_text fsys f = Inr original"
    and "distinct ps'" and "f' \<in> set ps'" and "read_text fsys' f' = Inr original"
  shows "writes_to f (io_log (final (run ps raised fsys))) =
           writes_to f' (io_log (final (run ps' raised' fsys')))
    \<and> (write_failure (fsys f) = None \<and> write_failure (fsys' f') = None \<longrightarrow>
         read_text (files (final (run ps raised fsys))) f =
         read_text (files (final (run ps' raised' fsys'))) f')"
proof -
  have "files (final (run ps raised fsys)) f = processed (fsys f)"
    using assms(1,2) by (simp add: files_run files_process_all initial_simps)
  moreover have "files (final (run ps' raised' fsys')) f' = processed (fsys' f')"
    using assms(4,5) by (simp add: files_run files_process_all initial_simps)
  ultimately have "write_failure (fsys f) = None \<and> write_failure (fsys' f') = None \<longrightarrow>
         read_text (files (final (run ps raised fsys))) f =
         read_text (files (final (run ps' raised' fsys'))) f'"
    using assms(3,6) by (auto simp: read_text_def processed_def split: sum.splits)
  moreover have "writes_to f (io_log (final (run ps raised fsys))) =
           writes_to f' (io_log (final (run ps' raised' fsys')))"
    using assms by (simp add: io_log_run writes_to_process_all initial_simps)
  ultimately show ?thesis by blast
qed

section \<open>Idempotence\<close>

lemma winlator_not_idempotent_aux:
  "str ''Initializing Winlator initialization'' \<noteq> str ''Initializing Winlator'' @ [0x521D, 0x671F, 0x5316]"
  by (simp add: str_def)

text \<open>
  C3 fails as stated: translating \<open>winlator_text\<close> twice differs from translating it
  once. The first pass leaves \<open>Initializing Winlator\<close> followed by three code points; the
  replacement ends in \<open>Winlator\<close>, which with those code points is the pattern of an
  earlier rule, so the second pass rewrites again.
\<close>

theorem idempotence_counterexample:
  "translate (translate winlator_text) \<noteq> translate winlator_text"
  by (simp only: translate_winlator_text translate_winlator_text_again
      winlator_not_idempotent_aux not_False_eq_True)

lemma second_pass:
  assumes "fsys2 f = processed (fsys f)"
    and "\<forall>t. read_text fsys f = Inr t \<longrightarrow> pattern_free (translate t)"
  shows "\<not> rewritten fsys2 f"
proof (cases "read_result (fsys f)")
  case (Inl e)
  then show ?thesis
    using assms(1) by (simp add: rewritten_def read_text_def processed_def)
next
  case (Inr t)
  then have "pattern_free (translate t)"
    using assms(2) by (simp add: read_text_def)
  then have "translate (translate t) = translate t"
    by (rule translate_absent)
  then show ?thesis
    using Inr assms(1)
    by (auto simp: rewritten_def read_text_def processed_def
        split: sum.splits option.splits write_error.splits)
qed

text \<open>
  C3, as amended. Translating is idempotent on every text whose translation holds no
  pattern of the table; and when that is so for the text of every readable file of a
  run over distinct paths, a second run over the tree the first one left reports no
  updated file.
\<close>

theorem idempotent_when_output_pattern_free:
  "(pattern_free (translate t) \<longrightarrow> translate (translate t) = translate t)
   \<and> (distinct ps \<and> (\<forall>f \<in> set ps. \<forall>t. read_text fsys f = Inr t \<longrightarrow> pattern_free (translate t))
        \<longrightarrow> updated (final (run ps None (files (final (run ps None fsys))))) = [])"
proof (intro conjI impI)
  assume "pattern_free (translate t)"
  then show "translate (translate t) = translate t" by (rule translate_absent)
next
  assume a: "distinct ps \<and> (\<forall>f \<in> set ps. \<forall>t. read_text fsys f = Inr t \<longrightarrow> pattern_free (translate t))"
  then have d: "distinct ps" by simp
  have "\<not> rewritten (files (final (run ps None fsys))) f" if "f \<in> set ps" for f
  proof (rule second_pass)
    show "files (final (run ps None fsys)) f = processed (fsys f)"
      using d that by (simp add: files_run files_process_all initial_simps)
    show "\<forall>t. read_text fsys f = Inr t \<longrightarrow> pattern_free (translate t)"
      using a that by blast
  qed
  then have "filter (rewritten (files (final (run ps None fsys)))) ps = []"
    by (simp add: filter_empty_conv)
  then show "updated (final (run ps None (files (final (run ps None fsys))))) = []"
    using d by (simp add: updated_run updated_process_all initial_simps)
qed

lemma fun_pattern_free: "pattern_free (str ''fun'')"
  by (simp add: pattern_free_def translations_dict_def str_def sublist_Cons_right)

lemma ready_pattern_free: "pattern_free (str ''s = Ready'')"
  by (simp add: pattern_free_def translations_dict_def str_def sublist_Cons_right)

lemma example_paths_distinct: "distinct example_paths"
  by (simp add: example_paths_def home_kt_def locked_kt_def plain_kt_def str_def)

lemma example_fs_reads:
  "read_text example_fs home_kt = Inr ready_text"
  "read_text example_fs locked_kt = Inl (exn_text locked_kt (OSError 13 (str ''Permission denied'')))"
  "read_text example_fs plain_kt = Inr (str ''fun'')"
  "read_text example_fs full_kt = Inr ready_text"
  by (simp_all add: read_text_def example_fs_def home_kt_def locked_kt_def plain_kt_def
      full_kt_def str_def)

lemma ready_changes: "translate ready_text \<noteq> ready_text"
  by (simp add: translate_ready_text) (simp add: ready_text_def str_def)

text \<open>The instance of C3, as amended, at \<open>ready_text\<close> and the example tree.\<close>

theorem idempotent_when_output_pattern_free_witness:
  "pattern_free (translate ready_text) \<and> translate (translate ready_text) = translate ready_text
   \<and> distinct example_paths
   \<and> pattern_free (translate (str ''fun''))
   \<and> updated (final (run example_paths None (files (final (run example_paths None example_fs))))) = []"
proof -
  have h1: "pattern_free (translate ready_text)"
    by (simp add: translate_ready_text ready_pattern_free)
  have h2: "\<forall>f \<in> set example_paths. \<forall>t. read_text example_fs f = Inr t \<longrightarrow> pattern_free (translate t)"
    by (simp add: example_paths_def example_fs_reads translate_ready_text ready_pattern_free
        translate_fun fun_pattern_free)
  show ?thesis
    using idempotent_when_output_pattern_free [of ready_text example_paths example_fs]
      h1 h2 example_paths_distinct translate_fun fun_pattern_free by simp
qed

section \<open>Examples\<close>

lemma example_names:
  "name home_kt = str ''Home.kt''" "name locked_kt = str ''Locked.kt''"
  "name plain_kt = str ''Plain.kt''" "name full_kt = str ''Full.kt''"
  "name screen_ui = str ''Screen.kt''" "name screen_home = str ''Screen.kt''"
  "name bad_ui = str ''Bad.kt''" "name bad_home = str ''Bad.kt''"
  "name a_kt = str ''a.kt''" "name b_kt = str ''b.kt''"
  by (simp_all add: name_def home_kt_def locked_kt_def plain_kt_def full_kt_def screen_ui_def
      screen_home_def bad_ui_def bad_home_def a_kt_def b_kt_def)

lemma permission_denied_text:
  "exn_text locked_kt (OSError 13 (str ''Permission denied'')) =
     str ''[Errno 13] Permission denied: '' @ [39] @ str ''ui/Locked.kt'' @ [39]"
  "exn_text screen_ui (OSError 13 (str ''Permission denied'')) =
     str ''[Errno 13] Permission denied: '' @ [39] @ str ''ui/Screen.kt'' @ [39]"
  "exn_text screen_home (OSError 13 (str ''Permission denied'')) =
     str ''[Errno 13] Permission denied: '' @ [39] @ str ''home/Screen.kt'' @ [39]"
  by (simp_all add: exn_text.simps(1) locked_kt_def screen_ui_def screen_home_def decimal.simps
      str_def)

lemma example_paths_differ:
  "home_kt \<noteq> locked_kt" "home_kt \<noteq> plain_kt" "home_kt \<noteq> full_kt" "locked_kt \<noteq> plain_kt"
  "locked_kt \<noteq> full_kt" "full_kt \<noteq> plain_kt"
  by (simp_all add: home_kt_def locked_kt_def plain_kt_def full_kt_def str_def)

lemma failing_paths_distinct: "distinct failing_paths"
  using example_paths_differ by (simp add: failing_paths_def)

lemma example_fs_outcomes:
  "rewritten example_fs home_kt" "\<not> rewritten example_fs locked_kt"
  "\<not> rewritten example_fs plain_kt" "\<not> rewritten example_fs full_kt"
  "failure example_fs home_kt = None"
  "failure example_fs locked_kt =
     Some (str ''[Errno 13] Permission denied: '' @ [39] @ str ''ui/Locked.kt'' @ [39])"
  "failure example_fs plain_kt = None"
  "failure example_fs full_kt = Some disk_full"
  using example_paths_differ
  by (simp_all add: rewritten_def failure_def example_fs_reads ready_changes translate_fun
      permission_denied_text)
    (simp_all add: example_fs_def)

lemma ready_fs_outcomes: "rewritten ready_fs f" "failure ready_fs f = None"
  "read_text ready_fs f = Inr ready_text"
  by (simp_all add: rewritten_def failure_def read_text_def ready_fs_def ready_changes)

lemma undecodable_fs_outcomes: "\<not> rewritten undecodable_fs f"
  "failure undecodable_fs f = Some decode_error"
  by (simp_all add: rewritten_def failure_def read_text_def undecodable_fs_def)

lemma decimal_digit: "n < 10 \<Longrightarrow> decimal n = [48 + n]"
  by (simp add: decimal.simps)

text \<open>The instance of C2 at \<open>ui/Plain.kt\<close> of the example tree.\<close>

theorem persisted_iff_changed_witness:
  "distinct example_paths \<and> plain_kt \<in> set example_paths
   \<and> read_text example_fs plain_kt = Inr (str ''fun'')
   \<and> write_failure (example_fs plain_kt) = None
   \<and> translate (str ''fun'') = str ''fun'' \<and> pattern_free (str ''fun'')
   \<and> writes_to plain_kt (io_log (final (run example_paths None example_fs))) = []
   \<and> read_text (files (final (run example_paths None example_fs))) plain_kt = Inr (str ''fun'')
   \<and> files (final (run example_paths None example_fs)) plain_kt = example_fs plain_kt
   \<and> updated (final (run example_paths None example_fs)) =
       updated (final (run (remove1 plain_kt example_paths) None example_fs))
   \<and> stdout (final (run example_paths None example_fs)) =
       stdout (final (run (remove1 plain_kt example_paths) None example_fs))
   \<and> home_kt \<in> set example_paths \<and> read_text example_fs home_kt = Inr ready_text
   \<and> write_failure (example_fs home_kt) = None \<and> translate ready_text \<noteq> ready_text
   \<and> writes_to home_kt (io_log (final (run example_paths None example_fs))) = [str ''s = Ready'']
   \<and> read_text (files (final (run example_paths None example_fs))) home_kt = Inr (str ''s = Ready'')"
proof -
  have h2: "plain_kt \<in> set example_paths" by (simp add: example_paths_def)
  have h4: "write_failure (example_fs plain_kt) = None"
    using example_paths_differ by (simp add: example_fs_def)
  have g2: "home_kt \<in> set example_paths" by (simp add: example_paths_def)
  have g4: "write_failure (example_fs home_kt) = None"
    using example_paths_differ by (simp add: example_fs_def)
  have unchanged: "writes_to plain_kt (io_log (final (run example_paths None example_fs))) = []
     \<and> read_text (files (final (run example_paths None example_fs))) plain_kt = Inr (str ''fun'')
     \<and> files (final (run example_paths None example_fs)) plain_kt = example_fs plain_kt
     \<and> updated (final (run example_paths None example_fs)) =
         updated (final (run (remove1 plain_kt example_paths) None example_fs))
     \<and> stdout (final (run example_paths None example_fs)) =
         stdout (final (run (remove1 plain_kt example_paths) None example_fs))"
    using persisted_iff_changed [OF example_paths_distinct h2 example_fs_reads(3), of None]
      h4 translate_fun fun_pattern_free
    by simp
  have changed: "writes_to home_kt (io_log (final (run example_paths None example_fs))) = [str ''s = Ready'']
     \<and> read_text (files (final (run example_paths None example_fs))) home_kt = Inr (str ''s = Ready'')"
    using persisted_iff_changed [OF example_paths_distinct g2 example_fs_reads(1), of None]
      g4 ready_changes
    by (simp add: translate_ready_text)
  from unchanged changed show ?thesis
    using example_paths_distinct h2 h4 g2 g4 example_fs_reads(1,3) translate_fun fun_pattern_free
      ready_changes
    by blast
qed

text \<open>
  C5 fails as stated, in that the diagnostic does not report the path: a file that does
  not decode gives the same output whether it is \<open>ui/Screen.kt\<close> or \<open>home/Screen.kt\<close>.
\<close>

theorem diagnostic_path_counterexample:
  "stdout (final (run [screen_ui] None undecodable_fs)) =
     [str ''Error Screen.kt: '' @ decode_error, str ''Updated 0 files'']
   \<and> stdout (final (run [screen_home] None undecodable_fs)) =
     [str ''Error Screen.kt: '' @ decode_error, str ''Updated 0 files'']
   \<and> screen_ui \<noteq> screen_home"
proof -
  have "stdout (final (run [f] None undecodable_fs)) =
     [error_line f decode_error, str ''Updated 0 files'']" for f
    by (simp add: stdout_run_None stdout_process_file updated_process_file initial_simps
        diagnostics_def undecodable_fs_outcomes report_def decimal_digit) (simp add: str_def)
  moreover have "error_line f decode_error = str ''Error Screen.kt: '' @ decode_error"
    if "name f = str ''Screen.kt''" for f
    using that by (simp add: error_line_def str_def)
  moreover have "screen_ui \<noteq> screen_home"
    by (simp add: screen_ui_def screen_home_def str_def)
  ultimately show ?thesis
    by (simp add: example_names)
qed

lemma ascii_console_accepts:
  "ascii_console h (error_line locked_kt
     (str ''[Errno 13] Permission denied: '' @ [39] @ str ''ui/Locked.kt'' @ [39])) = None"
  "ascii_console h (error_line full_kt disk_full) = None"
  by (simp_all add: ascii_console_def error_line_def example_names disk_full_def str_def)

lemma full_kt_left_empty: "read_text (\<lambda>f. processed (example_fs f)) full_kt = Inr []"
  using example_paths_differ
  by (simp add: read_text_def processed_def example_fs_def ready_changes)

text \<open>
  The instance of C5, as amended, on a console with the ASCII encoding, at
  \<open>ui/Locked.kt\<close>, which cannot be opened, and at \<open>ui/Full.kt\<close>, whose write raises after
  the file is opened and leaves it empty.
\<close>

theorem failure_isolated_witness:
  "distinct failing_paths \<and> locked_kt \<in> set failing_paths \<and> full_kt \<in> set failing_paths
   \<and> failure example_fs locked_kt =
       Some (str ''[Errno 13] Permission denied: '' @ [39] @ str ''ui/Locked.kt'' @ [39])
   \<and> failure example_fs full_kt = Some disk_full
   \<and> ascii_console [] (error_line locked_kt
        (str ''[Errno 13] Permission denied: '' @ [39] @ str ''ui/Locked.kt'' @ [39])) = None
   \<and> ascii_console [] (error_line full_kt disk_full) = None
   \<and> str ''Error '' @ name locked_kt @ str '': ''
        @ str ''[Errno 13] Permission denied: '' @ [39] @ str ''ui/Locked.kt'' @ [39]
        \<in> set (stdout (final (run_on ascii_console failing_paths None example_fs)))
   \<and> str ''Error '' @ name full_kt @ str '': '' @ disk_full
        \<in> set (stdout (final (run_on ascii_console failing_paths None example_fs)))
   \<and> reads (io_log (final (run_on ascii_console failing_paths None example_fs))) = failing_paths
   \<and> files (final (run_on ascii_console failing_paths None example_fs)) home_kt =
       files (final (run_on ascii_console (remove1 locked_kt failing_paths) None example_fs)) home_kt
   \<and> files (final (run_on ascii_console failing_paths None example_fs)) plain_kt =
       files (final (run_on ascii_console (remove1 full_kt failing_paths) None example_fs)) plain_kt
   \<and> updated (final (run_on ascii_console failing_paths None example_fs)) =
       updated (final (run_on ascii_console (remove1 locked_kt failing_paths) None example_fs))
   \<and> updated (final (run_on ascii_console failing_paths None example_fs)) =
       updated (final (run_on ascii_console (remove1 full_kt failing_paths) None example_fs))
   \<and> files (final (run_on ascii_console failing_paths None example_fs)) full_kt =
       processed (example_fs full_kt)
   \<and> read_result (processed (example_fs full_kt)) = Inr []"
proof -
  have m1: "locked_kt \<in> set failing_paths" and m2: "full_kt \<in> set failing_paths"
    by (simp_all add: failing_paths_def)
  have acc: "\<forall>h. \<forall>g \<in> set failing_paths. \<forall>e'. failure example_fs g = Some e'
      \<longrightarrow> ascii_console h (error_line g e') = None"
    using ascii_console_accepts by (simp add: failing_paths_def example_fs_outcomes)
  have left: "read_result (processed (example_fs full_kt)) = Inr []"
    using example_paths_differ by (simp add: processed_def example_fs_def ready_changes)
  note read_failure =
    failure_isolated [OF failing_paths_distinct m1 example_fs_outcomes(6) acc, of None]
  note write_failure =
    failure_isolated [OF failing_paths_distinct m2 example_fs_outcomes(8) acc, of None]
  note line_read = read_failure [THEN conjunct1]
  note all_read = read_failure [THEN conjunct2, THEN conjunct1]
  note other_files_read =
    read_failure [THEN conjunct2, THEN conjunct2, THEN conjunct1, rule_format,
      OF example_paths_differ(1)]
  note updated_read =
    read_failure [THEN conjunct2, THEN conjunct2, THEN conjunct2, THEN conjunct1]
  note line_write = write_failure [THEN conjunct1]
  note other_files_write =
    write_failure [THEN conjunct2, THEN conjunct2, THEN conjunct1, rule_format,
      OF example_paths_differ(6) [symmetric]]
  note updated_write =
    write_failure [THEN conjunct2, THEN conjunct2, THEN conjunct2, THEN conjunct1]
  note own = write_failure [THEN conjunct2, THEN conjunct2, THEN conjunct2, THEN conjunct2]
  show ?thesis
    by (intro conjI) (fact failing_paths_distinct m1 m2 example_fs_outcomes(6,8)
        ascii_console_accepts line_read line_write all_read other_files_read other_files_write
        updated_read updated_write own left)+
qed

text \<open>
  On a console with the ASCII encoding, the diagnostic of a file whose name holds two
  code points beyond ASCII cannot be printed, and the run ends there.
\<close>

lemma print_failure_example:
  "uncaught (run_on ascii_console [settings_kt, home_kt] None undecodable_fs) =
     Some (str ''ordinal not in range(128)'')
   \<and> reads (io_log (final (run_on ascii_console [settings_kt, home_kt] None undecodable_fs))) =
     [settings_kt]
   \<and> stdout (final (run_on ascii_console [settings_kt, home_kt] None undecodable_fs)) = []"
proof -
  have "ascii_console [] (error_line settings_kt decode_error) = Some (str ''ordinal not in range(128)'')"
    by (simp add: ascii_console_def error_line_def name_def settings_kt_def)
  with print_failure_ends_loop [of "initial undecodable_fs" settings_kt decode_error ascii_console
      "str ''ordinal not in range(128)''" "[home_kt]"]
  have "fst (process_all_on ascii_console [settings_kt, home_kt] (initial undecodable_fs)) =
      Some (str ''ordinal not in range(128)'')
    \<and> stdout (snd (process_all_on ascii_console [settings_kt, home_kt] (initial undecodable_fs))) = []
    \<and> reads (io_log (snd (process_all_on ascii_console [settings_kt, home_kt] (initial undecodable_fs))))
        = [settings_kt]"
    by (simp add: initial_simps undecodable_fs_outcomes)
  then show ?thesis
    by (cases "process_all_on ascii_console [settings_kt, home_kt] (initial undecodable_fs)")
      (simp add: run_on_def)
qed

text \<open>
  The instance of C6 at the example tree: of three files the second cannot be read and
  the third holds no pattern.
\<close>

theorem report_exact_witness:
  "distinct example_paths
   \<and> updated (final (run example_paths None example_fs)) = [str ''Home.kt'']
   \<and> stdout (final (run example_paths None example_fs)) =
       [str ''Error Locked.kt: [Errno 13] Permission denied: '' @ [39] @ str ''ui/Locked.kt'' @ [39],
        str ''Updated 1 files'', str ''  - Home.kt'']
   \<and> failure example_fs locked_kt =
       Some (str ''[Errno 13] Permission denied: '' @ [39] @ str ''ui/Locked.kt'' @ [39])
   \<and> \<not> rewritten example_fs locked_kt"
proof -
  have f: "filter (rewritten example_fs) example_paths = [home_kt]"
    by (simp add: example_paths_def example_fs_outcomes)
  have d: "diagnostics example_fs example_paths =
      [str ''Error Locked.kt: [Errno 13] Permission denied: '' @ [39] @ str ''ui/Locked.kt'' @ [39]]"
    by (simp add: diagnostics_def example_paths_def example_fs_outcomes error_line_def example_names)
      (simp add: str_def)
  have c: "str ''Updated '' @ decimal (length [home_kt]) @ str '' files'' = str ''Updated 1 files''"
    by (simp add: decimal_digit str_def)
  have b: "str ''  - '' @ str ''Home.kt'' = str ''  - Home.kt''"
    by (simp add: str_def)
  show ?thesis
    using report_exact [OF example_paths_distinct, of example_fs]
    by (simp only: f d c b example_names example_paths_distinct example_fs_outcomes
        list.map append_Cons append_Nil simp_thms)
qed

text \<open>The instance of C7 at \<open>ui/Home.kt\<close> of the example tree and \<open>a.kt\<close> of another.\<close>

theorem transformed_content_pure_witness:
  "distinct example_paths \<and> home_kt \<in> set example_paths
   \<and> read_text example_fs home_kt = Inr ready_text
   \<and> distinct [b_kt, a_kt] \<and> a_kt \<in> set [b_kt, a_kt]
   \<and> read_text ready_fs a_kt = Inr ready_text
   \<and> write_failure (example_fs home_kt) = None \<and> write_failure (ready_fs a_kt) = None
   \<and> writes_to home_kt (io_log (final (run example_paths None example_fs))) =
       writes_to a_kt (io_log (final (run [b_kt, a_kt] None ready_fs)))
   \<and> read_text (files (final (run example_paths None example_fs))) home_kt =
       read_text (files (final (run [b_kt, a_kt] None ready_fs))) a_kt"
proof -
  have h2: "home_kt \<in> set example_paths" by (simp add: example_paths_def)
  have h4: "distinct [b_kt, a_kt]" by (simp add: a_kt_def b_kt_def str_def)
  have h5: "a_kt \<in> set [b_kt, a_kt]" by simp
  have h7: "write_failure (example_fs home_kt) = None"
    using example_paths_differ by (simp add: example_fs_def)
  have h8: "write_failure (ready_fs a_kt) = None"
    by (simp add: ready_fs_def)
  show ?thesis
    using transformed_content_pure [OF example_paths_distinct h2 example_fs_reads(1) h4 h5
        ready_fs_outcomes(3), of None None]
      example_paths_distinct h2 example_fs_reads(1) h4 h5 ready_fs_outcomes(3) h7 h8
    by blast
qed

section \<open>The walk\<close>

lemma updated_subseq:
  "\<exists>us. updated (process_all ps st) = updated st @ us \<and> subseq us (map name ps)"
proof (induction ps arbitrary: st)
  case Nil
  show ?case by simp
next
  case (Cons f ps)
  obtain us where us: "updated (process_all ps (process_file f st)) = updated (process_file f st) @ us"
    and sub: "subseq us (map name ps)"
    using Cons.IH [of "process_file f st"] by blast
  show ?case
  proof (cases "rewritten (files st) f")
    case True
    then have "updated (process_all (f # ps) st) = updated st @ name f # us"
      using us by (simp add: updated_process_file)
    moreover have "subseq (name f # us) (map name (f # ps))"
      using sub by simp
    ultimately show ?thesis by blast
  next
    case False
    then have "updated (process_all (f # ps) st) = updated st @ us"
      using us by (simp add: updated_process_file)
    moreover have "subseq us (map name (f # ps))"
      using sub by (simp add: list_emb_Cons)
    ultimately show ?thesis by blast
  qed
qed

text \<open>
  C8, as amended. The script sorts nothing: it reads the files in exactly the order in
  which the walk yields them, and \<open>updated\<close> lists names in that same order (it is a
  subsequence of the names of the yielded paths). Runs that receive the same sequence
  on the same file system give the same report, \<open>run\<close> being a function of both.
\<close>

theorem processing_order_is_walk_order:
  "reads (io_log (final (run ps raised fsys))) = ps
   \<and> subseq (updated (final (run ps raised fsys))) (map name ps)"
proof -
  have "reads (io_log (final (run ps raised fsys))) = ps"
    by (simp add: io_log_run reads_process_all initial_simps)
  moreover have "subseq (updated (final (run ps raised fsys))) (map name ps)"
    using updated_subseq [of ps "initial fsys"] by (auto simp: updated_run initial_simps)
  ultimately show ?thesis by blast
qed

text \<open>
  C8 fails as stated: when the walk yields \<open>b.kt\<close> before \<open>a.kt\<close>, as a directory listed
  in that order makes it do, the files are processed and reported in that order, which
  is not lexicographic.
\<close>

theorem lexicographic_order_counterexample:
  "reads (io_log (final (run [b_kt, a_kt] None ready_fs))) = [b_kt, a_kt]
   \<and> \<not> sorted [b_kt, a_kt]
   \<and> updated (final (run [b_kt, a_kt] None ready_fs)) = [str ''b.kt'', str ''a.kt'']
   \<and> \<not> sorted [str ''b.kt'', str ''a.kt'']"
proof -
  have "reads (io_log (final (run [b_kt, a_kt] None ready_fs))) = [b_kt, a_kt]"
    by (simp add: io_log_run reads_process_all initial_simps del: process_all_Cons)
  moreover have "\<not> sorted [b_kt, a_kt]"
    by (simp add: a_kt_def b_kt_def str_def)
  moreover have "distinct [b_kt, a_kt]"
    by (simp add: a_kt_def b_kt_def str_def)
  then have "updated (final (run [b_kt, a_kt] None ready_fs)) = [str ''b.kt'', str ''a.kt'']"
    by (simp add: updated_run updated_process_all initial_simps ready_fs_outcomes
        example_names del: process_all_Cons)
  moreover have "\<not> sorted [str ''b.kt'', str ''a.kt'']"
    by (simp add: str_def)
  ultimately show ?thesis by blast
qed









lemma example_tree_emptied:
  "emptied example_tree =
     Dir True
       [(str ''Home.kt'', File), (str ''secret'', Dir True []),
        (str ''ui'', Dir True [(str ''Plain.kt'', File), (str ''notes.txt'', File)])]"
  by (simp add: example_tree_def)




lemma error_line_same_name:
  "name f = name g \<Longrightarrow>
   (str ''Error '' @ name f @ str '': '' @ e = str ''Error '' @ name g @ str '': '' @ e') = (e = e')"
  by simp

lemma same_names_same_lines:
  assumes "length ps = length qs" and "map name ps = map name qs"
    and "map (rewritten fsys) ps = map (rewritten fsys') qs"
    and "map (failure fsys) ps = map (failure fsys') qs"
  shows "diagnostics fsys ps = diagnostics fsys' qs
    \<and> map name (filter (rewritten fsys) ps) = map name (filter (rewritten fsys') qs)"
  using assms
proof (induction ps qs rule: list_induct2)
  case Nil
  show ?case by (simp add: diagnostics_def)
next
  case (Cons f ps g qs)
  then have n: "name f = name g" and r: "rewritten fsys f = rewritten fsys' g"
    and e: "failure fsys f = failure fsys' g" by simp_all
  have ih: "diagnostics fsys ps = diagnostics fsys' qs
    \<and> map name (filter (rewritten fsys) ps) = map name (filter (rewritten fsys') qs)"
    using Cons by simp
  have "diagnostics fsys [f] = diagnostics fsys' [g]"
    using n e by (simp add: diagnostics_def error_line_def split: option.splits)
  with ih n r show ?case
    by (simp add: diagnostics_Cons [of _ f ps] diagnostics_Cons [of _ g qs])
qed

text \<open>
  C10, as amended. The script names a file by its base name only: the report line of an
  updated file is two spaces, a dash, a space and \<open>f.name\<close>, the diagnostic of a failed
  file is \<open>Error\<close>, \<open>f.name\<close>, a colon and the text of the exception, and two runs over
  distinct paths whose files agree, position by position, in base name, in being
  rewritten and in the text of their exception print the same lines, whatever the
  directories. The diagnostics of two files with the same base name are equal exactly
  when the texts of their exceptions are.
\<close>

theorem base_name_only:
  assumes "distinct ps" and "distinct qs" and "map name ps = map name qs"
    and "map (rewritten fsys) ps = map (rewritten fsys') qs"
    and "map (failure fsys) ps = map (failure fsys') qs"
  shows "stdout (final (run ps None fsys)) = stdout (final (run qs None fsys'))
    \<and> (\<forall>f \<in> set ps. rewritten fsys f \<longrightarrow>
          str ''  - '' @ name f \<in> set (stdout (final (run ps None fsys))))
    \<and> (\<forall>f \<in> set ps. \<forall>e. failure fsys f = Some e \<longrightarrow>
          str ''Error '' @ name f @ str '': '' @ e \<in> set (stdout (final (run ps None fsys))))
    \<and> (\<forall>f g e e'. name f = name g \<longrightarrow>
          (str ''Error '' @ name f @ str '': '' @ e = str ''Error '' @ name g @ str '': '' @ e')
          = (e = e'))"
proof -
  have "length ps = length qs"
    using assms(3) by (rule map_eq_imp_length_eq)
  then have "diagnostics fsys ps = diagnostics fsys' qs
    \<and> map name (filter (rewritten fsys) ps) = map name (filter (rewritten fsys') qs)"
    using assms(3,4,5) by (rule same_names_same_lines)
  then have same: "stdout (final (run ps None fsys)) = stdout (final (run qs None fsys'))"
    using assms(1,2)
    by (simp add: stdout_run_None updated_run stdout_process_all updated_process_all initial_simps)
  have out: "stdout (final (run ps None fsys)) =
      diagnostics fsys ps @ report (map name (filter (rewritten fsys) ps))"
    using assms(1)
    by (simp add: stdout_run_None stdout_process_all updated_process_all initial_simps)
  have rep: "\<forall>f \<in> set ps. rewritten fsys f \<longrightarrow>
          str ''  - '' @ name f \<in> set (stdout (final (run ps None fsys)))"
    by (auto simp: out report_def)
  have dia: "\<forall>f \<in> set ps. \<forall>e. failure fsys f = Some e \<longrightarrow>
          str ''Error '' @ name f @ str '': '' @ e \<in> set (stdout (final (run ps None fsys)))"
    using diagnostics_member [of _ ps fsys] by (auto simp: out error_line_def)
  from same rep dia show ?thesis
    by (simp add: error_line_same_name)
qed

lemma screen_paths_differ:
  "screen_ui \<noteq> screen_home" "screen_ui \<noteq> bad_ui" "screen_ui \<noteq> bad_home"
  "screen_home \<noteq> bad_ui" "screen_home \<noteq> bad_home" "bad_ui \<noteq> bad_home"
  by (simp_all add: screen_ui_def screen_home_def bad_ui_def bad_home_def str_def)

lemma mixed_fs_outcomes:
  "rewritten mixed_fs screen_ui" "rewritten mixed_fs screen_home"
  "\<not> rewritten mixed_fs bad_ui" "\<not> rewritten mixed_fs bad_home"
  "failure mixed_fs screen_ui = None" "failure mixed_fs screen_home = None"
  "failure mixed_fs bad_ui = Some decode_error" "failure mixed_fs bad_home = Some decode_error"
  using screen_paths_differ
  by (simp_all add: rewritten_def failure_def read_text_def mixed_fs_def ready_changes)

lemma denied_fs_outcomes: "\<not> rewritten denied_fs f"
  "failure denied_fs f = Some (exn_text f (OSError 13 (str ''Permission denied'')))"
  by (simp_all add: rewritten_def failure_def read_text_def denied_fs_def)

text \<open>
  C10 fails as stated, in that the diagnostics of two files with the same base name can
  differ: the text of the \<open>OSError\<close> of a file that cannot be opened names its path, so
  \<open>ui/Screen.kt\<close> and \<open>home/Screen.kt\<close> print different lines.
\<close>

theorem same_name_diagnostics_counterexample:
  "stdout (final (run [screen_ui, screen_home] None denied_fs)) =
     [str ''Error Screen.kt: [Errno 13] Permission denied: '' @ [39] @ str ''ui/Screen.kt'' @ [39],
      str ''Error Screen.kt: [Errno 13] Permission denied: '' @ [39] @ str ''home/Screen.kt'' @ [39],
      str ''Updated 0 files'']
   \<and> name screen_ui = name screen_home
   \<and> str ''Error Screen.kt: [Errno 13] Permission denied: '' @ [39] @ str ''ui/Screen.kt'' @ [39]
       \<noteq> str ''Error Screen.kt: [Errno 13] Permission denied: '' @ [39] @ str ''home/Screen.kt'' @ [39]"
proof -
  have d: "distinct [screen_ui, screen_home]"
    using screen_paths_differ by simp
  have "stdout (final (run [screen_ui, screen_home] None denied_fs)) =
     [error_line screen_ui (exn_text screen_ui (OSError 13 (str ''Permission denied''))),
      error_line screen_home (exn_text screen_home (OSError 13 (str ''Permission denied''))),
      str ''Updated 0 files'']"
    using d
    by (simp add: stdout_run_None stdout_process_all updated_process_all initial_simps
        diagnostics_def denied_fs_outcomes report_def decimal_digit del: process_all_Cons)
      (simp add: str_def)
  moreover have "error_line screen_ui (exn_text screen_ui (OSError 13 (str ''Permission denied''))) =
      str ''Error Screen.kt: [Errno 13] Permission denied: '' @ [39] @ str ''ui/Screen.kt'' @ [39]"
    by (simp add: error_line_def example_names permission_denied_text) (simp add: str_def)
  moreover have "error_line screen_home (exn_text screen_home (OSError 13 (str ''Permission denied''))) =
      str ''Error Screen.kt: [Errno 13] Permission denied: '' @ [39] @ str ''home/Screen.kt'' @ [39]"
    by (simp add: error_line_def example_names permission_denied_text) (simp add: str_def)
  moreover have "str ''Error Screen.kt: [Errno 13] Permission denied: '' @ [39] @ str ''ui/Screen.kt'' @ [39]
       \<noteq> str ''Error Screen.kt: [Errno 13] Permission denied: '' @ [39] @ str ''home/Screen.kt'' @ [39]"
    by (simp add: str_def)
  ultimately show ?thesis
    by (simp only: example_names simp_thms)
qed

text \<open>
  The instance of C10, as amended: two files named \<open>Screen.kt\<close>, both updated, and two
  named \<open>Bad.kt\<close>, neither of which decodes, processed in either order.
\<close>

theorem base_name_only_witness:
  "screen_ui \<noteq> screen_home \<and> bad_ui \<noteq> bad_home
   \<and> distinct screen_paths \<and> distinct screen_paths_swapped
   \<and> map name screen_paths = map name screen_paths_swapped
   \<and> map (rewritten mixed_fs) screen_paths = map (rewritten mixed_fs) screen_paths_swapped
   \<and> map (failure mixed_fs) screen_paths = map (failure mixed_fs) screen_paths_swapped
   \<and> stdout (final (run screen_paths None mixed_fs)) =
       stdout (final (run screen_paths_swapped None mixed_fs))
   \<and> stdout (final (run screen_paths None mixed_fs)) =
       [str ''Error Bad.kt: '' @ decode_error, str ''Error Bad.kt: '' @ decode_error,
        str ''Updated 2 files'', str ''  - Screen.kt'', str ''  - Screen.kt'']
   \<and> str ''  - '' @ name screen_ui \<in> set (stdout (final (run screen_paths None mixed_fs)))
   \<and> str ''  - '' @ name screen_home \<in> set (stdout (final (run screen_paths None mixed_fs)))
   \<and> str ''Error '' @ name bad_ui @ str '': '' @ decode_error
       \<in> set (stdout (final (run screen_paths None mixed_fs)))
   \<and> str ''Error '' @ name bad_home @ str '': '' @ decode_error
       \<in> set (stdout (final (run screen_paths None mixed_fs)))"
proof -
  have d1: "distinct screen_paths" and d2: "distinct screen_paths_swapped"
    using screen_paths_differ by (auto simp: screen_paths_def screen_paths_swapped_def)
  have n: "map name screen_paths = map name screen_paths_swapped"
    by (simp add: screen_paths_def screen_paths_swapped_def example_names)
  have r: "map (rewritten mixed_fs) screen_paths = map (rewritten mixed_fs) screen_paths_swapped"
    by (simp add: screen_paths_def screen_paths_swapped_def mixed_fs_outcomes)
  have e: "map (failure mixed_fs) screen_paths = map (failure mixed_fs) screen_paths_swapped"
    by (simp add: screen_paths_def screen_paths_swapped_def mixed_fs_outcomes)
  note inst = base_name_only [OF d1 d2 n r e]
  note same = inst [THEN conjunct1]
  note rep = inst [THEN conjunct2, THEN conjunct1, rule_format]
  note dia = inst [THEN conjunct2, THEN conjunct2, THEN conjunct1, rule_format]
  have m: "screen_ui \<in> set screen_paths" "screen_home \<in> set screen_paths"
    "bad_ui \<in> set screen_paths" "bad_home \<in> set screen_paths"
    by (simp_all add: screen_paths_def)
  have out: "stdout (final (run screen_paths None mixed_fs)) =
       [str ''Error Bad.kt: '' @ decode_error, str ''Error Bad.kt: '' @ decode_error,
        str ''Updated 2 files'', str ''  - Screen.kt'', str ''  - Screen.kt'']"
    using d1
    by (simp add: stdout_run_None stdout_process_all updated_process_all initial_simps)
      (simp add: screen_paths_def diagnostics_def mixed_fs_outcomes report_def decimal_digit
        error_line_def example_names str_def)
  show ?thesis
    by (intro conjI) (fact screen_paths_differ d1 d2 n r e same out
        rep [OF m(1) mixed_fs_outcomes(1)] rep [OF m(2) mixed_fs_outcomes(2)]
        dia [OF m(3) mixed_fs_outcomes(7)] dia [OF m(4) mixed_fs_outcomes(8)])+
qed

end
